theory Spec2Isabelle
  imports Complex_Main "HOL-Library.Sublist" "HOL-Library.Multiset"
begin

section \<open>JavaScript values\<close>

text \<open>
  A JavaScript string is a sequence of UTF-16 code units; the literals of the sources that
  are not ASCII are written out as their code units.
\<close>

type_synonym jsstring = "nat list"

definition ascii :: "string \<Rightarrow> jsstring" where
  "ascii s = map of_char s"

text \<open>
  The values \<^verbatim>\<open>response.json()\<close> can produce. An object is the list of its own
  properties (keys distinct); \<open>None\<close> of type \<open>json option\<close> stands for \<^verbatim>\<open>undefined\<close>.
\<close>

datatype json =
    JNull
  | JBool bool
  | JNum real
  | JStr jsstring
  | JArr "json list"
  | JObj "(jsstring \<times> json) list"

text \<open>A thrown value: an instance of \<^verbatim>\<open>Error\<close> with its message, or anything else.\<close>

datatype thrown = ErrorInstance jsstring | OtherValue

fun truthy :: "json \<Rightarrow> bool" where
  "truthy JNull = False"
| "truthy (JBool b) = b"
| "truthy (JNum n) = (n \<noteq> 0)"
| "truthy (JStr s) = (s \<noteq> [])"
| "truthy (JArr xs) = True"
| "truthy (JObj kvs) = True"

text \<open>
  \<^verbatim>\<open>x.k\<close> for a value \<open>x\<close> that is not \<^verbatim>\<open>null\<close>, and a name \<open>k\<close> that is neither an
  array index, \<^verbatim>\<open>length\<close>, nor defined on a prototype (the sources read \<^verbatim>\<open>choices\<close>,
  \<^verbatim>\<open>message\<close>, \<^verbatim>\<open>content\<close> and \<^verbatim>\<open>error\<close>): only an object can have it.
\<close>

fun member_of :: "json \<Rightarrow> jsstring \<Rightarrow> json option" where
  "member_of (JObj kvs) k = map_of kvs k"
| "member_of x k = None"

text \<open>\<^verbatim>\<open>x[0]\<close> for a value \<open>x\<close> that is not \<^verbatim>\<open>null\<close>.\<close>

fun element0 :: "json \<Rightarrow> json option" where
  "element0 (JArr xs) = (case xs of [] \<Rightarrow> None | x # rest \<Rightarrow> Some x)"
| "element0 (JStr s) = (case s of [] \<Rightarrow> None | c # rest \<Rightarrow> Some (JStr [c]))"
| "element0 (JObj kvs) = map_of kvs (ascii ''0'')"
| "element0 x = None"

text \<open>The TypeError of reading a property of \<^verbatim>\<open>null\<close>, with the message V8 gives it.\<close>

definition readOfNull :: "jsstring \<Rightarrow> thrown" where
  "readOfNull k =
     ErrorInstance (ascii ''Cannot read properties of null (reading '' @ [39] @ k @ [39, 41])"

text \<open>\<^verbatim>\<open>x.k\<close>, \<^verbatim>\<open>v?.k\<close> and \<^verbatim>\<open>v?.[0]\<close>.\<close>

definition getProp :: "json \<Rightarrow> jsstring \<Rightarrow> thrown + json option" where
  "getProp x k = (if x = JNull then Inl (readOfNull k) else Inr (member_of x k))"

definition optProp :: "json option \<Rightarrow> jsstring \<Rightarrow> json option" where
  "optProp v k =
     (case v of None \<Rightarrow> None | Some x \<Rightarrow> if x = JNull then None else member_of x k)"

definition optIndex0 :: "json option \<Rightarrow> json option" where
  "optIndex0 v =
     (case v of None \<Rightarrow> None | Some x \<Rightarrow> if x = JNull then None else element0 x)"

text \<open>\<^verbatim>\<open>String.prototype.trim\<close>: white space and line terminators go, at both ends.\<close>

definition isWhiteSpace :: "nat \<Rightarrow> bool" where
  "isWhiteSpace c \<longleftrightarrow>
     c \<in> {9, 10, 11, 12, 13, 32, 160, 5760, 8232, 8233, 8239, 8287, 12288, 65279}
     \<or> (8192 \<le> c \<and> c \<le> 8202)"

definition trim :: "jsstring \<Rightarrow> jsstring" where
  "trim s = rev (dropWhile isWhiteSpace (rev (dropWhile isWhiteSpace s)))"

text \<open>
  \<^verbatim>\<open>content.trim()\<close>: only a string has the method; on any other value that is not
  \<^verbatim>\<open>null\<close> the call is a TypeError.
\<close>

fun callTrim :: "json \<Rightarrow> thrown + jsstring" where
  "callTrim (JStr s) = Inr (trim s)"
| "callTrim JNull = Inl (readOfNull (ascii ''trim''))"
| "callTrim x = Inl (ErrorInstance (ascii ''content.trim is not a function''))"

text \<open>A non-negative integer in a template literal: its decimal digits.\<close>

fun decimal :: "nat \<Rightarrow> jsstring" where
  "decimal n = (if n < 10 then [48 + n] else decimal (n div 10) @ [48 + n mod 10])"

declare decimal.simps [simp del]

section \<open>The AI service (\<^verbatim>\<open>AIService\<close>)\<close>

record AISettings =
  apiUrl :: jsstring
  apiKey :: jsstring
  model :: jsstring
  enabled :: bool

datatype Role = System | User | Assistant

record ChatMessage =
  role :: Role
  message_content :: jsstring

record AIResponse =
  success :: bool
  content :: "jsstring option"
  error :: "json option"

text \<open>The \<^verbatim>\<open>options\<close> argument of \<^verbatim>\<open>callAPI\<close>; every field is optional.\<close>

record CallOptions =
  temperature :: "real option"
  maxTokens :: "nat option"
  stream :: "bool option"

text \<open>
  The object given to \<^verbatim>\<open>JSON.stringify\<close> as the request body, and the request given to
  \<^verbatim>\<open>fetch\<close>.
\<close>

record ChatBody =
  req_model :: jsstring
  req_messages :: "ChatMessage list"
  req_temperature :: real
  max_tokens :: nat
  req_stream :: bool

datatype Method = GET | POST

record HttpRequest =
  url :: jsstring
  req_method :: Method
  headers :: "(jsstring \<times> jsstring) list"
  body :: "ChatBody option"

text \<open>
  A response: its status, and what \<^verbatim>\<open>response.json()\<close> settles to (the parsed body, or
  the error it rejects with). \<^verbatim>\<open>response.ok\<close> is the status being in 200..299.
\<close>

record HttpResponse =
  status :: nat
  json_result :: "thrown + json"

definition ok :: "HttpResponse \<Rightarrow> bool" where
  "ok response \<longleftrightarrow> 200 \<le> status response \<and> status response \<le> 299"

datatype FetchOutcome = Rejected thrown | Resolved HttpResponse

type_synonym Fetch = "HttpRequest \<Rightarrow> FetchOutcome"

subsection \<open>String literals of the service\<close>

definition err_notConfigured :: jsstring where
  "err_notConfigured =
    [65, 73, 26381, 21153, 26410, 37197, 32622, 25110, 26410, 21551, 29992]"

definition err_requestFailedPrefix :: jsstring where
  "err_requestFailedPrefix =
    [65, 80, 73, 35831, 27714, 22833, 36133, 58, 32]"

definition err_malformed :: jsstring where
  "err_malformed =
    [65, 73, 21709, 24212, 26684, 24335, 38169, 35823]"

definition err_network :: jsstring where
  "err_network =
    [32593, 32476, 35831, 27714, 22833, 36133]"

definition msg_connOk :: jsstring where
  "msg_connOk =
    [65, 73, 32, 65, 80, 73, 36830, 25509, 25104, 21151]"

definition err_connFailed :: jsstring where
  "err_connFailed =
    [65, 73, 32, 65, 80, 73, 36830, 25509, 22833, 36133, 65292, 35831, 26816, 26597,
     37197, 32622]"

definition err_connNetwork :: jsstring where
  "err_connNetwork =
    [32593, 32476, 36830, 25509, 22833, 36133]"

definition sys_continue :: jsstring where
  "sys_continue =
    [20320, 26159, 19968, 20010, 19987, 19994, 30340, 20889, 20316, 21161, 25163,
     12290, 35831, 26681, 25454, 29992, 25143, 25552, 20379, 30340, 25991, 26412,
     20869, 23481, 65292, 33258, 28982, 22320, 32493, 20889, 19979, 21435, 12290,
     20445, 25345, 21407, 25991, 30340, 39118, 26684, 21644, 35821, 35843, 12290]"

definition sys_continueContext :: jsstring where
  "sys_continueContext =
    [10, 10, 19978, 19979, 25991, 65306]"

definition usr_continue :: jsstring where
  "usr_continue =
    [35831, 32493, 20889, 20197, 19979, 25991, 26412, 65306, 10, 10]"

definition sys_optimize :: jsstring where
  "sys_optimize =
    [20320, 26159, 19968, 20010, 19987, 19994, 30340, 25991, 26412, 32534, 36753,
     21161, 25163, 12290, 35831, 24110, 21161, 29992, 25143, 20248, 21270, 25991,
     26412, 20869, 23481, 65292, 25913, 21892, 35821, 27861, 12289, 34920, 36798,
     21644, 32467, 26500, 65292, 20351, 20854, 26356, 21152, 28165, 26224, 12289,
     27969, 30021, 21644, 19987, 19994, 12290, 20445, 25345, 21407, 24847, 19981,
     21464, 12290]"

definition usr_optimize :: jsstring where
  "usr_optimize =
    [35831, 20248, 21270, 20197, 19979, 25991, 26412, 65306, 10, 10]"

definition sys_grammar :: jsstring where
  "sys_grammar =
    [20320, 26159, 19968, 20010, 19987, 19994, 30340, 35821, 27861, 26816, 26597,
     21161, 25163, 12290, 35831, 26816, 26597, 25991, 26412, 20013, 30340, 35821,
     27861, 38169, 35823, 12289, 25340, 20889, 38169, 35823, 21644, 34920, 36798,
     38382, 39064, 65292, 24182, 25552, 20379, 20462, 27491, 24314, 35758, 12290,
     22914, 26524, 27809, 26377, 38169, 35823, 65292, 35831, 35828, 26126, 25991,
     26412, 35821, 27861, 27491, 30830, 12290]"

definition usr_grammar :: jsstring where
  "usr_grammar =
    [35831, 26816, 26597, 20197, 19979, 25991, 26412, 30340, 35821, 27861, 65306, 10,
     10]"

definition default_targetLanguage :: jsstring where
  "default_targetLanguage =
    [33521, 25991]"

definition sys_translatePre :: jsstring where
  "sys_translatePre =
    [20320, 26159, 19968, 20010, 19987, 19994, 30340, 32763, 35793, 21161, 25163,
     12290, 35831, 23558, 29992, 25143, 25552, 20379, 30340, 25991, 26412, 32763,
     35793, 25104]"

definition sys_translatePost :: jsstring where
  "sys_translatePost =
    [65292, 20445, 25345, 21407, 24847, 21644, 35821, 35843, 12290]"

definition usr_translatePre :: jsstring where
  "usr_translatePre =
    [35831, 23558, 20197, 19979, 25991, 26412, 32763, 35793, 25104]"

definition usr_translatePost :: jsstring where
  "usr_translatePost =
    [65306, 10, 10]"

definition len_short :: jsstring where
  "len_short =
    [31616, 30701]"

definition len_medium :: jsstring where
  "len_medium =
    [20013, 31561, 38271, 24230]"

definition len_long :: jsstring where
  "len_long =
    [35814, 32454]"

definition sys_summaryPre :: jsstring where
  "sys_summaryPre =
    [20320, 26159, 19968, 20010, 19987, 19994, 30340, 25688, 35201, 29983, 25104,
     21161, 25163, 12290, 35831, 20026, 29992, 25143, 25552, 20379, 30340, 25991,
     26412, 29983, 25104]"

definition sys_summaryPost :: jsstring where
  "sys_summaryPost =
    [30340, 25688, 35201, 65292, 31361, 20986, 20851, 38190, 20449, 24687, 21644,
     35201, 28857, 12290]"

definition usr_summary :: jsstring where
  "usr_summary =
    [35831, 20026, 20197, 19979, 25991, 26412, 29983, 25104, 25688, 35201, 65306, 10,
     10]"

definition sys_title :: jsstring where
  "sys_title =
    [20320, 26159, 19968, 20010, 19987, 19994, 30340, 26631, 39064, 29983, 25104,
     21161, 25163, 12290, 35831, 20026, 29992, 25143, 25552, 20379, 30340, 25991,
     26412, 20869, 23481, 29983, 25104, 51, 45, 53, 20010, 21560, 24341, 20154,
     19988, 20934, 30830, 30340, 26631, 39064, 36873, 39033, 12290]"

definition usr_title :: jsstring where
  "usr_title =
    [35831, 20026, 20197, 19979, 25991, 26412, 29983, 25104, 26631, 39064, 65306, 10,
     10]"

subsection \<open>Operations\<close>

text \<open>The service holds \<^verbatim>\<open>settings: AISettings | null\<close>.\<close>

definition isAvailable :: "AISettings option \<Rightarrow> bool" where
  "isAvailable settings =
     (case settings of
        None \<Rightarrow> False
      | Some s \<Rightarrow> enabled s \<and> apiKey s \<noteq> [] \<and> apiUrl s \<noteq> [])"

definition failed :: "json \<Rightarrow> AIResponse" where
  "failed e = \<lparr>success = False, content = None, error = Some e\<rparr>"

definition succeeded :: "jsstring \<Rightarrow> AIResponse" where
  "succeeded c = \<lparr>success = True, content = Some c, error = None\<rparr>"

text \<open>
  The \<^verbatim>\<open>catch\<close> block of \<^verbatim>\<open>callAPI\<close>:
  \<^verbatim>\<open>error instanceof Error ? error.message : <network failure>\<close>.
\<close>

definition caught :: "thrown \<Rightarrow> AIResponse" where
  "caught e = failed (JStr (case e of ErrorInstance m \<Rightarrow> m | OtherValue \<Rightarrow> err_network))"

text \<open>\<^verbatim>\<open>data.choices?.[0]?.message?.content\<close> and \<^verbatim>\<open>errorData.error?.message\<close>.\<close>

definition extractContent :: "json \<Rightarrow> thrown + json option" where
  "extractContent data =
     (case getProp data (ascii ''choices'') of
        Inl e \<Rightarrow> Inl e
      | Inr choices \<Rightarrow>
          Inr (optProp (optProp (optIndex0 choices) (ascii ''message'')) (ascii ''content'')))"

definition extractErrorMessage :: "json \<Rightarrow> thrown + json option" where
  "extractErrorMessage errorData =
     (case getProp errorData (ascii ''error'') of
        Inl e \<Rightarrow> Inl e
      | Inr err \<Rightarrow> Inr (optProp err (ascii ''message'')))"

definition chatRequest :: "AISettings \<Rightarrow> ChatMessage list \<Rightarrow> CallOptions \<Rightarrow> HttpRequest" where
  "chatRequest cfg msgs options =
     \<lparr>url = apiUrl cfg @ ascii ''/chat/completions'',
      req_method = POST,
      headers = [(ascii ''Content-Type'', ascii ''application/json''),
                 (ascii ''Authorization'', ascii ''Bearer '' @ apiKey cfg)],
      body = Some
        \<lparr>req_model = model cfg,
         req_messages = msgs,
         req_temperature =
           (case temperature options of None \<Rightarrow> 0.7 | Some t \<Rightarrow> if t = 0 then 0.7 else t),
         max_tokens =
           (case maxTokens options of None \<Rightarrow> 1000 | Some n \<Rightarrow> if n = 0 then 1000 else n),
         req_stream = (case stream options of None \<Rightarrow> False | Some b \<Rightarrow> b)\<rparr>\<rparr>"

text \<open>What \<^verbatim>\<open>callAPI\<close> makes of a response.\<close>

definition readResponse :: "HttpResponse \<Rightarrow> AIResponse" where
  "readResponse response =
     (if \<not> ok response then
        (let errorData = (case json_result response of Inl e \<Rightarrow> JObj [] | Inr d \<Rightarrow> d) in
         case extractErrorMessage errorData of
           Inl e \<Rightarrow> caught e
         | Inr None \<Rightarrow> failed (JStr (err_requestFailedPrefix @ decimal (status response)))
         | Inr (Some m) \<Rightarrow>
             if truthy m then failed m
             else failed (JStr (err_requestFailedPrefix @ decimal (status response))))
      else
        (case json_result response of
           Inl e \<Rightarrow> caught e
         | Inr data \<Rightarrow>
             (case extractContent data of
                Inl e \<Rightarrow> caught e
              | Inr None \<Rightarrow> failed (JStr err_malformed)
              | Inr (Some c) \<Rightarrow>
                  if \<not> truthy c then failed (JStr err_malformed)
                  else (case callTrim c of
                          Inl e \<Rightarrow> caught e
                        | Inr trimmed \<Rightarrow> succeeded trimmed))))"

text \<open>
  An operation returns its result together with the requests it gave to \<^verbatim>\<open>fetch\<close>, in
  order. \<^verbatim>\<open>this.settings!\<close> on \<^verbatim>\<open>null\<close> settings would be a TypeError inside the
  \<^verbatim>\<open>try\<close>.
\<close>

definition callAPI ::
  "AISettings option \<Rightarrow> Fetch \<Rightarrow> ChatMessage list \<Rightarrow> CallOptions
     \<Rightarrow> AIResponse \<times> HttpRequest list" where
  "callAPI settings fetch msgs options =
     (if \<not> isAvailable settings then (failed (JStr err_notConfigured), [])
      else
        (case settings of
           None \<Rightarrow> (caught (readOfNull (ascii ''apiUrl'')), [])
         | Some cfg \<Rightarrow>
             (let request = chatRequest cfg msgs options in
              case fetch request of
                Rejected e \<Rightarrow> (caught e, [request])
              | Resolved response \<Rightarrow> (readResponse response, [request]))))"

definition continueText ::
  "AISettings option \<Rightarrow> Fetch \<Rightarrow> jsstring \<Rightarrow> jsstring option
     \<Rightarrow> AIResponse \<times> HttpRequest list" where
  "continueText settings fetch text ctx =
     callAPI settings fetch
       [\<lparr>role = System,
         message_content = sys_continue @
           (case ctx of
              None \<Rightarrow> []
            | Some c \<Rightarrow> if c \<noteq> [] then sys_continueContext @ c else [])\<rparr>,
        \<lparr>role = User, message_content = usr_continue @ text\<rparr>]
       \<lparr>temperature = Some 0.8, maxTokens = Some 500, stream = None\<rparr>"

definition optimizeContent ::
  "AISettings option \<Rightarrow> Fetch \<Rightarrow> jsstring \<Rightarrow> AIResponse \<times> HttpRequest list" where
  "optimizeContent settings fetch text =
     callAPI settings fetch
       [\<lparr>role = System, message_content = sys_optimize\<rparr>,
        \<lparr>role = User, message_content = usr_optimize @ text\<rparr>]
       \<lparr>temperature = Some 0.3, maxTokens = Some 800, stream = None\<rparr>"

definition checkGrammar ::
  "AISettings option \<Rightarrow> Fetch \<Rightarrow> jsstring \<Rightarrow> AIResponse \<times> HttpRequest list" where
  "checkGrammar settings fetch text =
     callAPI settings fetch
       [\<lparr>role = System, message_content = sys_grammar\<rparr>,
        \<lparr>role = User, message_content = usr_grammar @ text\<rparr>]
       \<lparr>temperature = Some 0.2, maxTokens = Some 600, stream = None\<rparr>"

text \<open>The default of \<^verbatim>\<open>targetLanguage\<close> applies when the argument is \<^verbatim>\<open>undefined\<close>.\<close>

definition translateText ::
  "AISettings option \<Rightarrow> Fetch \<Rightarrow> jsstring \<Rightarrow> jsstring option
     \<Rightarrow> AIResponse \<times> HttpRequest list" where
  "translateText settings fetch text targetLanguage =
     (let lang = (case targetLanguage of None \<Rightarrow> default_targetLanguage | Some l \<Rightarrow> l) in
      callAPI settings fetch
        [\<lparr>role = System, message_content = sys_translatePre @ lang @ sys_translatePost\<rparr>,
         \<lparr>role = User, message_content = usr_translatePre @ lang @ usr_translatePost @ text\<rparr>]
        \<lparr>temperature = Some 0.3, maxTokens = Some 800, stream = None\<rparr>)"

datatype SummaryLength = Short | Medium | Long

fun lengthMap :: "SummaryLength \<Rightarrow> jsstring" where
  "lengthMap Short = len_short"
| "lengthMap Medium = len_medium"
| "lengthMap Long = len_long"

fun summaryMaxTokens :: "SummaryLength \<Rightarrow> nat" where
  "summaryMaxTokens Short = 200"
| "summaryMaxTokens Medium = 400"
| "summaryMaxTokens Long = 600"

definition generateSummary ::
  "AISettings option \<Rightarrow> Fetch \<Rightarrow> jsstring \<Rightarrow> SummaryLength option
     \<Rightarrow> AIResponse \<times> HttpRequest list" where
  "generateSummary settings fetch text len =
     (let l = (case len of None \<Rightarrow> Medium | Some x \<Rightarrow> x) in
      callAPI settings fetch
        [\<lparr>role = System, message_content = sys_summaryPre @ lengthMap l @ sys_summaryPost\<rparr>,
         \<lparr>role = User, message_content = usr_summary @ text\<rparr>]
        \<lparr>temperature = Some 0.3, maxTokens = Some (summaryMaxTokens l), stream = None\<rparr>)"

definition generateTitle ::
  "AISettings option \<Rightarrow> Fetch \<Rightarrow> jsstring \<Rightarrow> AIResponse \<times> HttpRequest list" where
  "generateTitle settings fetch text =
     callAPI settings fetch
       [\<lparr>role = System, message_content = sys_title\<rparr>,
        \<lparr>role = User, message_content = usr_title @ text\<rparr>]
       \<lparr>temperature = Some 0.6, maxTokens = Some 200, stream = None\<rparr>"

definition customPrompt ::
  "AISettings option \<Rightarrow> Fetch \<Rightarrow> jsstring \<Rightarrow> jsstring \<Rightarrow> AIResponse \<times> HttpRequest list" where
  "customPrompt settings fetch text prompt =
     callAPI settings fetch
       [\<lparr>role = System, message_content = prompt\<rparr>,
        \<lparr>role = User, message_content = text\<rparr>]
       \<lparr>temperature = Some 0.7, maxTokens = Some 800, stream = None\<rparr>"

definition modelsRequest :: "AISettings \<Rightarrow> HttpRequest" where
  "modelsRequest cfg =
     \<lparr>url = apiUrl cfg @ ascii ''/models'',
      req_method = GET,
      headers = [(ascii ''Authorization'', ascii ''Bearer '' @ apiKey cfg),
                 (ascii ''Content-Type'', ascii ''application/json'')],
      body = None\<rparr>"

text \<open>The \<^verbatim>\<open>catch\<close> of \<^verbatim>\<open>testConnection\<close> ignores what was thrown.\<close>

definition testConnection ::
  "AISettings option \<Rightarrow> Fetch \<Rightarrow> AIResponse \<times> HttpRequest list" where
  "testConnection settings fetch =
     (if \<not> isAvailable settings then (failed (JStr err_notConfigured), [])
      else
        (case settings of
           None \<Rightarrow> (failed (JStr err_connNetwork), [])
         | Some cfg \<Rightarrow>
             (let request = modelsRequest cfg in
              case fetch request of
                Rejected e \<Rightarrow> (failed (JStr err_connNetwork), [request])
              | Resolved response \<Rightarrow>
                  if ok response then (succeeded msg_connOk, [request])
                  else (failed (JStr err_connFailed), [request]))))"

subsection \<open>Notions the properties of the service are stated with\<close>

text \<open>
  A result is fully populated: \<^verbatim>\<open>success\<close> with \<^verbatim>\<open>content\<close> and no \<^verbatim>\<open>error\<close>, or
  failure with \<^verbatim>\<open>error\<close> and no \<^verbatim>\<open>content\<close>.
\<close>

definition populated :: "AIResponse \<Rightarrow> bool" where
  "populated r \<longleftrightarrow>
     (success r \<and> content r \<noteq> None \<and> error r = None)
     \<or> (\<not> success r \<and> error r \<noteq> None \<and> content r = None)"

text \<open>The body of the chat request an operation issued, when it issued exactly one.\<close>

definition issuedBody :: "AIResponse \<times> HttpRequest list \<Rightarrow> ChatBody option" where
  "issuedBody result = (case snd result of [request] \<Rightarrow> body request | _ \<Rightarrow> None)"

text \<open>
  The field \<^verbatim>\<open>error.message\<close> of a parsed error body and the field
  \<^verbatim>\<open>choices[0].message.content\<close> of a parsed completion, read off the structure of the
  body; \<open>None\<close> when a step of the path is missing.
\<close>

definition errorMessageField :: "json \<Rightarrow> json option" where
  "errorMessageField data =
     (case data of
        JObj kvs \<Rightarrow>
          (case map_of kvs (ascii ''error'') of
             Some (JObj ekvs) \<Rightarrow> map_of ekvs (ascii ''message'')
           | _ \<Rightarrow> None)
      | _ \<Rightarrow> None)"

definition contentField :: "json \<Rightarrow> json option" where
  "contentField data =
     (case data of
        JObj kvs \<Rightarrow>
          (case map_of kvs (ascii ''choices'') of
             Some choices \<Rightarrow>
               (case element0 choices of
                  Some (JObj ckvs) \<Rightarrow>
                    (case map_of ckvs (ascii ''message'') of
                       Some (JObj mkvs) \<Rightarrow> map_of mkvs (ascii ''content'')
                     | _ \<Rightarrow> None)
                | _ \<Rightarrow> None)
           | None \<Rightarrow> None)
      | _ \<Rightarrow> None)"

text \<open>Settings and networks to run the operations on.\<close>

definition exampleSettings :: AISettings where
  "exampleSettings =
     \<lparr>apiUrl = ascii ''http://h/v1'', apiKey = ascii ''k'', model = ascii ''m'', enabled = True\<rparr>"

definition noOptions :: CallOptions where
  "noOptions = \<lparr>temperature = None, maxTokens = None, stream = None\<rparr>"

definition answering :: "HttpResponse \<Rightarrow> Fetch" where
  "answering response = (\<lambda>request. Resolved response)"

definition rejecting :: "thrown \<Rightarrow> Fetch" where
  "rejecting e = (\<lambda>request. Rejected e)"

section \<open>Paths (\<^verbatim>\<open>path.posix\<close> of Node.js)\<close>

text \<open>\<^verbatim>\<open>s.split(c)\<close> for a separator of one code unit.\<close>

fun split_on :: "nat \<Rightarrow> jsstring \<Rightarrow> jsstring list" where
  "split_on sep [] = [[]]"
| "split_on sep (c # cs) =
     (if c = sep then [] # split_on sep cs
      else (case split_on sep cs of
              [] \<Rightarrow> [[c]]
            | w # ws \<Rightarrow> (c # w) # ws))"

fun join_with :: "nat \<Rightarrow> jsstring list \<Rightarrow> jsstring" where
  "join_with sep [] = []"
| "join_with sep [w] = w"
| "join_with sep (w # ws) = w @ sep # join_with sep ws"

text \<open>
  \<^verbatim>\<open>normalizeString\<close>: empty segments and \<^verbatim>\<open>.\<close> go; \<^verbatim>\<open>..\<close> removes the segment before
  it, and where there is none it stays only in a relative path. The segments kept so
  far are held last first.
\<close>

fun normalizeSegments :: "bool \<Rightarrow> jsstring list \<Rightarrow> jsstring list \<Rightarrow> jsstring list" where
  "normalizeSegments allowAboveRoot [] res = rev res"
| "normalizeSegments allowAboveRoot (seg # segs) res =
     (if seg = [] \<or> seg = ascii ''.'' then normalizeSegments allowAboveRoot segs res
      else if seg = ascii ''..'' then
        (case res of
           [] \<Rightarrow>
             normalizeSegments allowAboveRoot segs (if allowAboveRoot then [seg] else [])
         | lastSeg # rest \<Rightarrow>
             if lastSeg \<noteq> ascii ''..'' then normalizeSegments allowAboveRoot segs rest
             else normalizeSegments allowAboveRoot segs
                    (if allowAboveRoot then seg # res else res))
      else normalizeSegments allowAboveRoot segs (seg # res))"

definition normalize :: "jsstring \<Rightarrow> jsstring" where
  "normalize path =
     (if path = [] then ascii ''.''
      else
        (let isAbsolute = (hd path = 47);
             trailingSeparator = (last path = 47);
             p = join_with 47 (normalizeSegments (\<not> isAbsolute) (split_on 47 path) [])
         in if p = [] then
              (if isAbsolute then ascii ''/''
               else if trailingSeparator then ascii ''./'' else ascii ''.'')
            else
              (let q = (if trailingSeparator then p @ [47] else p)
               in if isAbsolute then 47 # q else q)))"

text \<open>\<^verbatim>\<open>path.join(a, b)\<close>: the arguments that are not empty, joined by \<^verbatim>\<open>/\<close>, normalized.\<close>

definition pathJoin :: "jsstring \<Rightarrow> jsstring \<Rightarrow> jsstring" where
  "pathJoin a b =
     (if a = [] \<and> b = [] then ascii ''.''
      else if a = [] then normalize b
      else if b = [] then normalize a
      else normalize (a @ 47 # b))"

section \<open>The file routes (\<^verbatim>\<open>api/routes/files.ts\<close>)\<close>

text \<open>
  What the content route asks of the file system: \<^verbatim>\<open>fs.stat\<close> and \<^verbatim>\<open>fs.readFile\<close>
  of an absolute path, \<open>None\<close> where the call throws.
\<close>

record Stats =
  isFile :: bool
  statSize :: nat
  mtime :: jsstring

record FileSystem =
  stat :: "jsstring \<Rightarrow> Stats option"
  readFile :: "jsstring \<Rightarrow> jsstring option"

text \<open>A reply: the status and the object given to \<^verbatim>\<open>res.json\<close>.\<close>

record Reply =
  code :: nat
  payload :: json

definition errorReply :: "nat \<Rightarrow> string \<Rightarrow> Reply" where
  "errorReply c msg =
     \<lparr>code = c,
      payload = JObj [(ascii ''success'', JBool False), (ascii ''error'', JStr (ascii msg))]\<rparr>"

text \<open>
  \<^verbatim>\<open>router.get('/*')\<close>, with \<open>filePath\<close> the value of \<^verbatim>\<open>req.params[0]\<close> and
  \<open>projectRoot\<close> the value of \<^verbatim>\<open>PROJECT_ROOT\<close>.
\<close>

definition getFile :: "jsstring \<Rightarrow> FileSystem \<Rightarrow> jsstring \<Rightarrow> Reply" where
  "getFile projectRoot fs filePath =
     (let absolutePath = pathJoin projectRoot filePath
      in if \<not> prefix projectRoot absolutePath then
           errorReply 403 ''Access denied: Path outside project root''
         else
           (case stat fs absolutePath of
              None \<Rightarrow> errorReply 500 ''Failed to read file''
            | Some stats \<Rightarrow>
                if \<not> isFile stats then errorReply 404 ''File not found''
                else
                  (case readFile fs absolutePath of
                     None \<Rightarrow> errorReply 500 ''Failed to read file''
                   | Some text \<Rightarrow>
                       \<lparr>code = 200,
                        payload = JObj
                          [(ascii ''success'', JBool True),
                           (ascii ''data'', JObj
                              [(ascii ''content'', JStr text),
                               (ascii ''path'', JStr filePath),
                               (ascii ''size'', JNum (real (statSize stats))),
                               (ascii ''lastModified'', JStr (mtime stats))])]\<rparr>)))"

text \<open>
  A path lies inside the root when it is the root or continues it after a separator.
\<close>

definition insideRoot :: "jsstring \<Rightarrow> jsstring \<Rightarrow> bool" where
  "insideRoot projectRoot p \<longleftrightarrow>
     p = projectRoot \<or> prefix (if last projectRoot = 47 then projectRoot else projectRoot @ [47]) p"

text \<open>
  A file system with one file, in a directory beside the project root \<^verbatim>\<open>/srv/app\<close>.
\<close>

definition siblingFileSystem :: FileSystem where
  "siblingFileSystem =
     \<lparr>stat = (\<lambda>p. if p = ascii ''/srv/app-secrets/key.txt''
                   then Some \<lparr>isFile = True, statSize = 6, mtime = ascii ''2024-01-01T00:00:00.000Z''\<rparr>
                   else None),
      readFile = (\<lambda>p. if p = ascii ''/srv/app-secrets/key.txt''
                       then Some (ascii ''secret'') else None)\<rparr>"

subsection \<open>The file tree\<close>

datatype NodeType = File | Folder

text \<open>A \<^verbatim>\<open>FileNode\<close>; an optional field that is absent or \<^verbatim>\<open>undefined\<close> is \<open>None\<close>.\<close>

datatype FileNode =
  FileNode (key: jsstring) (title: jsstring) (isLeaf: "bool option")
    (children: "FileNode list option") (path: jsstring) (nodeType: NodeType)
    (nodeSize: "nat option") (lastModified: "jsstring option")

text \<open>
  What \<^verbatim>\<open>buildFileTree\<close> asks of the file system at a path: the outcome of
  \<^verbatim>\<open>fs.stat\<close> and of \<^verbatim>\<open>fs.readdir\<close> with \<^verbatim>\<open>withFileTypes\<close> (\<open>None\<close> where the call
  throws), each entry with its name, its \<^verbatim>\<open>isDirectory()\<close> and what is at the path of
  the entry.
\<close>

datatype FsNode = FsNode (statResult: "Stats option") (readdirResult: "Dirent list option")
  and Dirent = Dirent (name: jsstring) (isDirectory: bool) (target: FsNode)

text \<open>The predicate given to \<^verbatim>\<open>entries.filter\<close>.\<close>

definition keepEntry :: "Dirent \<Rightarrow> bool" where
  "keepEntry entry =
     (if prefix (ascii ''.'') (name entry) \<and> name entry \<noteq> ascii ''.gitignore''
         \<and> name entry \<noteq> ascii ''.env.example'' then False
      else if name entry \<in> set [ascii ''node_modules'', ascii ''dist'', ascii ''dist-electron'',
                                ascii ''build'', ascii ''release''] then False
      else True)"

text \<open>
  The comparator given to \<^verbatim>\<open>items.sort\<close>; \<open>localeCompare\<close> stands for
  \<^verbatim>\<open>String.prototype.localeCompare\<close>, the collation of the host.
\<close>

definition compareNodes :: "(jsstring \<Rightarrow> jsstring \<Rightarrow> int) \<Rightarrow> FileNode \<Rightarrow> FileNode \<Rightarrow> int" where
  "compareNodes localeCompare a b =
     (if nodeType a \<noteq> nodeType b then (if nodeType a = Folder then - 1 else 1)
      else localeCompare (title a) (title b))"

text \<open>
  \<^verbatim>\<open>Array.prototype.sort\<close> with a comparator is a stable sort: an element goes before
  the first one it does not compare greater than.
\<close>

fun insertBy :: "('a \<Rightarrow> 'a \<Rightarrow> int) \<Rightarrow> 'a \<Rightarrow> 'a list \<Rightarrow> 'a list" where
  "insertBy cmp x [] = [x]"
| "insertBy cmp x (y # ys) = (if cmp x y \<le> 0 then x # y # ys else y # insertBy cmp x ys)"

definition sortBy :: "('a \<Rightarrow> 'a \<Rightarrow> int) \<Rightarrow> 'a list \<Rightarrow> 'a list" where
  "sortBy cmp xs = foldr (insertBy cmp) xs []"

text \<open>
  \<^verbatim>\<open>buildFileTree\<close>. The loop over the filtered entries is \<open>pushItems\<close>: it gives the
  items pushed, and whether it ran to its end; a \<^verbatim>\<open>fs.stat\<close> that throws ends it, and
  the \<^verbatim>\<open>catch\<close> then returns the items pushed so far, unsorted.
\<close>

function buildFileTree ::
    "(jsstring \<Rightarrow> jsstring \<Rightarrow> int) \<Rightarrow> FsNode \<Rightarrow> jsstring \<Rightarrow> FileNode list"
  and pushItems ::
    "(jsstring \<Rightarrow> jsstring \<Rightarrow> int) \<Rightarrow> jsstring \<Rightarrow> Dirent list \<Rightarrow> FileNode list \<times> bool"
where
  "buildFileTree localeCompare dir relativePath =
     (case readdirResult dir of
        None \<Rightarrow> []
      | Some entries \<Rightarrow>
          (case pushItems localeCompare relativePath (filter keepEntry entries) of
             (items, completed) \<Rightarrow>
               if completed then sortBy (compareNodes localeCompare) items else items))"
| "pushItems localeCompare relativePath [] = ([], True)"
| "pushItems localeCompare relativePath (entry # rest) =
     (let itemRelativePath = pathJoin relativePath (name entry)
      in case statResult (target entry) of
           None \<Rightarrow> ([], False)
         | Some stats \<Rightarrow>
             (let item =
                (if isDirectory entry then
                   (let depth = length (split_on 47 relativePath);
                        children = (if depth < 3
                                    then buildFileTree localeCompare (target entry) itemRelativePath
                                    else [])
                    in FileNode itemRelativePath (name entry) None
                         (if length children > 0 then Some children else None)
                         itemRelativePath Folder None (Some (mtime stats)))
                 else
                   FileNode itemRelativePath (name entry) (Some True) None
                     itemRelativePath File (Some (statSize stats)) (Some (mtime stats)))
              in case pushItems localeCompare relativePath rest of
                   (items, completed) \<Rightarrow> (item # items, completed)))"
  by pat_completeness auto

lemma size_list_filter_le: "size_list f (filter P xs) \<le> size_list f xs"
  by (induction xs) auto

termination buildFileTree
proof (relation "measure (\<lambda>x. case x of
    Inl (lc, dir, rel) \<Rightarrow> size dir
  | Inr (lc, rel, entries) \<Rightarrow> size_list size entries)", goal_cases)
  case 1
  show ?case by simp
next
  case (2 lc dir rel entries)
  then show ?case
    using size_list_filter_le [of size keepEntry entries] by (cases dir) simp
next
  case (3 lc rel entry rest)
  then show ?case by (cases entry) simp
next
  case (4 lc rel entry rest)
  then show ?case by simp
qed

declare buildFileTree.simps [simp del]

text \<open>
  The rule of exclusion and the order of a listing, as the interface describes them: a
  name is excluded when it starts with a dot and is not on the allow-list, or names a
  build-output directory; an item may stand before another when it is not a file before
  a folder and, both being of one kind, its title does not compare greater.
\<close>

definition excluded :: "jsstring \<Rightarrow> bool" where
  "excluded nm \<longleftrightarrow>
     (prefix (ascii ''.'') nm \<and> nm \<notin> {ascii ''.gitignore'', ascii ''.env.example''})
     \<or> nm \<in> {ascii ''node_modules'', ascii ''dist'', ascii ''dist-electron'',
              ascii ''build'', ascii ''release''}"

definition listedBefore :: "(jsstring \<Rightarrow> jsstring \<Rightarrow> int) \<Rightarrow> FileNode \<Rightarrow> FileNode \<Rightarrow> bool" where
  "listedBefore localeCompare a b \<longleftrightarrow>
     (nodeType a = File \<longrightarrow> nodeType b = File)
     \<and> (nodeType a = nodeType b \<longrightarrow> localeCompare (title a) (title b) \<le> 0)"

text \<open>A comparator is consistent on a set when it is total and transitive there.\<close>

definition consistentOn :: "'a set \<Rightarrow> ('a \<Rightarrow> 'a \<Rightarrow> int) \<Rightarrow> bool" where
  "consistentOn S cmp \<longleftrightarrow>
     (\<forall>a \<in> S. \<forall>b \<in> S. cmp a b \<le> 0 \<or> cmp b a \<le> 0)
     \<and> (\<forall>a \<in> S. \<forall>b \<in> S. \<forall>c \<in> S. cmp a b \<le> 0 \<and> cmp b c \<le> 0 \<longrightarrow> cmp a c \<le> 0)"

text \<open>The kind of item an entry becomes.\<close>

definition kindOf :: "Dirent \<Rightarrow> NodeType" where
  "kindOf entry = (if isDirectory entry then Folder else File)"

text \<open>
  A collation to run the listing with: the order of the code units, which is the order
  of any collation on names of lower-case letters that differ in their first letter.
\<close>

fun codeUnitCompare :: "jsstring \<Rightarrow> jsstring \<Rightarrow> int" where
  "codeUnitCompare [] [] = 0"
| "codeUnitCompare [] (y # ys) = - 1"
| "codeUnitCompare (x # xs) [] = 1"
| "codeUnitCompare (x # xs) (y # ys) =
     (if x < y then - 1 else if y < x then 1 else codeUnitCompare xs ys)"

text \<open>
  Directories to list, their entries in the order \<^verbatim>\<open>fs.readdir\<close> gives them (by code
  unit): what a plain file, an empty directory and a link to nothing look like.
\<close>

definition plainFile :: FsNode where
  "plainFile =
     FsNode (Some \<lparr>isFile = True, statSize = 1, mtime = ascii ''2024-01-01T00:00:00.000Z''\<rparr>)
       None"

definition emptyDirectory :: FsNode where
  "emptyDirectory =
     FsNode (Some \<lparr>isFile = False, statSize = 0, mtime = ascii ''2024-01-01T00:00:00.000Z''\<rparr>)
       (Some [])"

definition danglingLink :: FsNode where
  "danglingLink = FsNode None None"

definition exampleDirectory :: FsNode where
  "exampleDirectory =
     FsNode (Some \<lparr>isFile = False, statSize = 0, mtime = ascii ''2024-01-01T00:00:00.000Z''\<rparr>)
       (Some [Dirent (ascii ''.git'') True emptyDirectory,
              Dirent (ascii ''a.md'') False plainFile,
              Dirent (ascii ''b.txt'') False plainFile,
              Dirent (ascii ''node_modules'') True emptyDirectory])"

definition directoryWithDanglingLink :: FsNode where
  "directoryWithDanglingLink =
     FsNode (Some \<lparr>isFile = False, statSize = 0, mtime = ascii ''2024-01-01T00:00:00.000Z''\<rparr>)
       (Some [Dirent (ascii ''a.md'') False plainFile,
              Dirent (ascii ''b'') True emptyDirectory,
              Dirent (ascii ''link'') False danglingLink])"

section \<open>Scroll synchronization (\<^verbatim>\<open>MarkdownEditor\<close>)\<close>

text \<open>
  The numbers of a scroll position are JavaScript numbers; they are taken as reals, so
  the arithmetic below is exact where the program rounds.
\<close>

record ScrollInfo =
  scrollTop :: real
  scrollHeight :: real
  clientHeight :: real

text \<open>
  A ref to a surface (\<^verbatim>\<open>editorRef\<close>, \<^verbatim>\<open>rendererRef\<close>): \<^verbatim>\<open>current\<close> is \<^verbatim>\<open>null\<close>, or it
  is the handle of a mounted component, whose own editor or container is there or not
  yet.
\<close>

datatype Surface = Unmounted | Mounted "ScrollInfo option"

text \<open>
  \<^verbatim>\<open>getScrollInfo\<close> and \<^verbatim>\<open>scrollToPosition\<close> of a handle, the same for the editor and
  for the renderer: zeros and no effect while the editor or container is not there.
\<close>

fun getScrollInfo :: "Surface \<Rightarrow> ScrollInfo" where
  "getScrollInfo (Mounted (Some info)) = info"
| "getScrollInfo s = \<lparr>scrollTop = 0, scrollHeight = 0, clientHeight = 0\<rparr>"

fun scrollToPosition :: "real \<Rightarrow> Surface \<Rightarrow> Surface" where
  "scrollToPosition position (Mounted (Some info)) =
     Mounted (Some (info\<lparr>scrollTop := position\<rparr>))"
| "scrollToPosition position s = s"

datatype Command = ToRenderer real | ToEditor real

text \<open>
  What the handlers read and change: the state \<^verbatim>\<open>isScrollSyncing\<close>, the two refs, the
  calls of \<^verbatim>\<open>scrollToPosition\<close> made so far, and the delays of the pending
  \<^verbatim>\<open>setTimeout\<close> callbacks, each of which sets \<^verbatim>\<open>isScrollSyncing\<close> to \<^verbatim>\<open>false\<close>.
\<close>

record App =
  isScrollSyncing :: bool
  editorRef :: Surface
  rendererRef :: Surface
  commands :: "Command list"
  timers :: "nat list"
  editorListener :: "bool option"

text \<open>
  The handlers are closures made by \<^verbatim>\<open>useCallback(..., [isScrollSyncing])\<close>: \<open>syncing\<close>
  is the value of \<^verbatim>\<open>isScrollSyncing\<close> in the render that made the closure. The refs are
  read when the handler runs.
\<close>

definition handleEditorScroll :: "bool \<Rightarrow> App \<Rightarrow> ScrollInfo \<Rightarrow> App" where
  "handleEditorScroll syncing s event =
     (if syncing \<or> rendererRef s = Unmounted then s
      else
        (let scrollRatio =
               (if scrollHeight event > clientHeight event
                then scrollTop event / (scrollHeight event - clientHeight event) else 0);
             rendererScrollInfo = getScrollInfo (rendererRef s);
             targetScrollTop = scrollRatio *
               max 0 (scrollHeight rendererScrollInfo - clientHeight rendererScrollInfo)
         in s\<lparr>isScrollSyncing := True,
              rendererRef := scrollToPosition targetScrollTop (rendererRef s),
              commands := commands s @ [ToRenderer targetScrollTop],
              timers := timers s @ [100]\<rparr>))"

definition handleRendererScroll :: "bool \<Rightarrow> App \<Rightarrow> ScrollInfo \<Rightarrow> App" where
  "handleRendererScroll syncing s event =
     (if syncing \<or> editorRef s = Unmounted then s
      else
        (let scrollRatio =
               (if scrollHeight event > clientHeight event
                then scrollTop event / (scrollHeight event - clientHeight event) else 0);
             editorScrollInfo = getScrollInfo (editorRef s);
             targetScrollTop = scrollRatio *
               max 0 (scrollHeight editorScrollInfo - clientHeight editorScrollInfo)
         in s\<lparr>isScrollSyncing := True,
              editorRef := scrollToPosition targetScrollTop (editorRef s),
              commands := commands s @ [ToEditor targetScrollTop],
              timers := timers s @ [100]\<rparr>))"

text \<open>
  How the handlers are wired. The renderer binds \<^verbatim>\<open>onScroll={handleScroll}\<close> anew in
  every render, so a scroll of the renderer runs the handler of the latest render. The
  editor registers its listener once, in \<^verbatim>\<open>handleEditorDidMount\<close>:
  \<^verbatim>\<open>editor.onDidScrollChange((e) => { if (onScroll) { ... onScroll(...) } })\<close>, so a
  scroll of the editor runs the \<^verbatim>\<open>onScroll\<close> of the first render of the editor, a
  closure in which \<^verbatim>\<open>isScrollSyncing\<close> is \<^verbatim>\<open>false\<close>; \<open>editorListener\<close> holds the
  \<^verbatim>\<open>isScrollSyncing\<close> of the registered closure, \<open>None\<close> while there is no listener.
  Every state change is taken to be rendered before the next event.
\<close>

datatype Event =
    EditorDidMount ScrollInfo
  | EditorScroll ScrollInfo
  | RendererScroll ScrollInfo
  | TimerFired

fun step :: "App \<Rightarrow> Event \<Rightarrow> App" where
  "step s (EditorDidMount info) =
     s\<lparr>editorRef := Mounted (Some info), editorListener := Some False\<rparr>"
| "step s (EditorScroll event) =
     (case editorListener s of
        None \<Rightarrow> s
      | Some syncing \<Rightarrow> handleEditorScroll syncing s event)"
| "step s (RendererScroll event) = handleRendererScroll (isScrollSyncing s) s event"
| "step s TimerFired =
     (case timers s of
        [] \<Rightarrow> s
      | delay # rest \<Rightarrow> s\<lparr>isScrollSyncing := False, timers := rest\<rparr>)"

definition run :: "App \<Rightarrow> Event list \<Rightarrow> App" where
  "run s events = foldl step s events"

text \<open>The scroll fraction of a surface: its position over its scrollable range.\<close>

definition scrollFraction :: "ScrollInfo \<Rightarrow> real" where
  "scrollFraction info = scrollTop info / (scrollHeight info - clientHeight info)"

text \<open>
  The application as first rendered in split mode: nothing syncing, the editor handle
  there with its editor still loading, the renderer there.
\<close>

definition initialApp :: App where
  "initialApp =
     \<lparr>isScrollSyncing = False,
      editorRef = Mounted None,
      rendererRef = Mounted (Some \<lparr>scrollTop = 0, scrollHeight = 1000, clientHeight = 200\<rparr>),
      commands = [],
      timers = [],
      editorListener = None\<rparr>"

section \<open>Properties of the AI service\<close>

lemma isAvailable_iff:
  "isAvailable settings \<longleftrightarrow>
     (\<exists>s. settings = Some s \<and> enabled s \<and> apiUrl s \<noteq> [] \<and> apiKey s \<noteq> [])"
  by (cases settings) (auto simp: isAvailable_def)

lemma callAPI_unavailable:
  "\<not> isAvailable settings \<Longrightarrow>
     callAPI settings fetch msgs options = (failed (JStr err_notConfigured), [])"
  by (simp add: callAPI_def)

lemma callAPI_available:
  "isAvailable (Some cfg) \<Longrightarrow>
     callAPI (Some cfg) fetch msgs options =
       (case fetch (chatRequest cfg msgs options) of
          Rejected e \<Rightarrow> (caught e, [chatRequest cfg msgs options])
        | Resolved response \<Rightarrow> (readResponse response, [chatRequest cfg msgs options]))"
  by (simp add: callAPI_def Let_def)

text \<open>
  Claim C3. \<^verbatim>\<open>isAvailable()\<close> is true exactly when settings are present, enabled, and
  \<^verbatim>\<open>apiUrl\<close> and \<^verbatim>\<open>apiKey\<close> are both non-empty. While it is false, each of the eight
  operations, on any text and arguments and whatever the network would answer, returns
  \<^verbatim>\<open>{success: false, error: <service not configured>}\<close> as a value and gives no
  request to \<^verbatim>\<open>fetch\<close>.
\<close>

theorem unavailable_fails_without_request:
  "(isAvailable settings \<longleftrightarrow>
      (\<exists>s. settings = Some s \<and> enabled s \<and> apiUrl s \<noteq> [] \<and> apiKey s \<noteq> []))
   \<and> (\<not> isAvailable settings \<longrightarrow>
        (let notConfigured =
               (\<lparr>success = False, content = None, error = Some (JStr err_notConfigured)\<rparr>,
                [] :: HttpRequest list)
         in continueText settings fetch text ctx = notConfigured
          \<and> optimizeContent settings fetch text = notConfigured
          \<and> translateText settings fetch text lang = notConfigured
          \<and> generateSummary settings fetch text len = notConfigured
          \<and> checkGrammar settings fetch text = notConfigured
          \<and> generateTitle settings fetch text = notConfigured
          \<and> customPrompt settings fetch text prompt = notConfigured
          \<and> testConnection settings fetch = notConfigured))"
proof (intro conjI impI)
  show "isAvailable settings \<longleftrightarrow>
      (\<exists>s. settings = Some s \<and> enabled s \<and> apiUrl s \<noteq> [] \<and> apiKey s \<noteq> [])"
    by (rule isAvailable_iff)
next
  assume off: "\<not> isAvailable settings"
  have call: "callAPI settings fetch msgs options =
      (\<lparr>success = False, content = None, error = Some (JStr err_notConfigured)\<rparr>, [])"
    for msgs options
    using callAPI_unavailable [OF off] by (simp add: failed_def)
  have test: "testConnection settings fetch =
      (\<lparr>success = False, content = None, error = Some (JStr err_notConfigured)\<rparr>, [])"
    using off by (simp add: testConnection_def failed_def)
  show "let notConfigured =
               (\<lparr>success = False, content = None, error = Some (JStr err_notConfigured)\<rparr>,
                [] :: HttpRequest list)
         in continueText settings fetch text ctx = notConfigured
          \<and> optimizeContent settings fetch text = notConfigured
          \<and> translateText settings fetch text lang = notConfigured
          \<and> generateSummary settings fetch text len = notConfigured
          \<and> checkGrammar settings fetch text = notConfigured
          \<and> generateTitle settings fetch text = notConfigured
          \<and> customPrompt settings fetch text prompt = notConfigured
          \<and> testConnection settings fetch = notConfigured"
    unfolding Let_def continueText_def optimizeContent_def translateText_def
      generateSummary_def checkGrammar_def generateTitle_def customPrompt_def
    by (simp only: call test simp_thms)
qed

text \<open>
  Settings that are enabled but carry no key: the service is unavailable, and a
  continuation of \<^verbatim>\<open>hi\<close> fails without a request.
\<close>

theorem unavailable_fails_without_request_witness:
  "\<not> isAvailable
       (Some \<lparr>apiUrl = ascii ''http://h/v1'', apiKey = [], model = ascii ''m'', enabled = True\<rparr>)
   \<and> continueText
       (Some \<lparr>apiUrl = ascii ''http://h/v1'', apiKey = [], model = ascii ''m'', enabled = True\<rparr>)
       (answering \<lparr>status = 200, json_result = Inr JNull\<rparr>) (ascii ''hi'') None
     = (\<lparr>success = False, content = None, error = Some (JStr err_notConfigured)\<rparr>, [])"
  using unavailable_fails_without_request
    [of "Some \<lparr>apiUrl = ascii ''http://h/v1'', apiKey = [], model = ascii ''m'', enabled = True\<rparr>"
        "answering \<lparr>status = 200, json_result = Inr JNull\<rparr>" "ascii ''hi''" None]
  by (simp add: isAvailable_def Let_def)

text \<open>
  Claim C8. With the service available, on any texts and whatever the network answers,
  the continuation intent issues one request with temperature 0.8 and a budget of 500
  tokens, optimization and translation each issue one with temperature 0.3 and a budget
  of 800: continuation has the strictly higher temperature and the strictly smaller
  budget.
\<close>

theorem continuation_hotter_and_shorter:
  assumes "isAvailable settings"
  shows "\<exists>c opt t.
           issuedBody (continueText settings fetch text1 ctx) = Some c
         \<and> issuedBody (optimizeContent settings fetch text2) = Some opt
         \<and> issuedBody (translateText settings fetch text3 lang) = Some t
         \<and> req_temperature c = 0.8 \<and> max_tokens c = 500
         \<and> req_temperature opt = 0.3 \<and> max_tokens opt = 800
         \<and> req_temperature t = 0.3 \<and> max_tokens t = 800
         \<and> req_temperature c > req_temperature opt \<and> req_temperature c > req_temperature t
         \<and> max_tokens c < max_tokens opt \<and> max_tokens c < max_tokens t"
proof -
  from assms obtain cfg where cfg: "settings = Some cfg" and av: "isAvailable (Some cfg)"
    by (auto simp: isAvailable_iff)
  have issued: "issuedBody (callAPI (Some cfg) fetch msgs options)
      = body (chatRequest cfg msgs options)" for msgs options
    by (cases "fetch (chatRequest cfg msgs options)")
       (simp_all add: callAPI_available [OF av] issuedBody_def)
  show ?thesis
    unfolding cfg continueText_def optimizeContent_def translateText_def Let_def issued
    by (simp add: chatRequest_def)
qed

theorem continuation_hotter_and_shorter_witness:
  "isAvailable
     (Some \<lparr>apiUrl = ascii ''http://h/v1'', apiKey = ascii ''k'', model = ascii ''m'',
            enabled = True\<rparr>)
   \<and> (\<exists>c opt.
         issuedBody (continueText
           (Some \<lparr>apiUrl = ascii ''http://h/v1'', apiKey = ascii ''k'', model = ascii ''m'',
                  enabled = True\<rparr>)
           (rejecting OtherValue) (ascii ''a'') None) = Some c
       \<and> issuedBody (optimizeContent
           (Some \<lparr>apiUrl = ascii ''http://h/v1'', apiKey = ascii ''k'', model = ascii ''m'',
                  enabled = True\<rparr>)
           (rejecting OtherValue) (ascii ''b'')) = Some opt
       \<and> req_temperature c > req_temperature opt \<and> max_tokens c < max_tokens opt)"
proof -
  have av: "isAvailable
     (Some \<lparr>apiUrl = ascii ''http://h/v1'', apiKey = ascii ''k'', model = ascii ''m'',
            enabled = True\<rparr>)"
    by (simp add: isAvailable_def ascii_def)
  from continuation_hotter_and_shorter [OF av, of "rejecting OtherValue" "ascii ''a''" None
      "ascii ''b''" "ascii ''c''" None]
  show ?thesis using av by blast
qed

lemma populated_failed: "populated (failed e)"
  by (simp add: populated_def failed_def)

lemma populated_succeeded: "populated (succeeded c)"
  by (simp add: populated_def succeeded_def)

lemma populated_caught: "populated (caught e)"
  by (simp add: caught_def populated_failed)

lemma populated_readResponse: "populated (readResponse response)"
  by (simp add: readResponse_def Let_def populated_failed populated_succeeded populated_caught
      split: sum.split option.split)

lemma populated_callAPI: "populated (fst (callAPI settings fetch msgs options))"
  by (simp add: callAPI_def Let_def populated_failed populated_caught populated_readResponse
      split: option.split FetchOutcome.split)

lemma populated_testConnection: "populated (fst (testConnection settings fetch))"
  by (simp add: testConnection_def Let_def populated_failed populated_succeeded
      split: option.split FetchOutcome.split)

text \<open>
  Claim C9. Whatever the settings, the arguments and the answer of the network, the
  result of each public operation is fully populated: \<^verbatim>\<open>success: true\<close> with
  \<^verbatim>\<open>content\<close> defined (and no \<^verbatim>\<open>error\<close>), or \<^verbatim>\<open>success: false\<close> with \<^verbatim>\<open>error\<close>
  defined (and no \<^verbatim>\<open>content\<close>).
\<close>

theorem results_fully_populated:
  "populated (fst (continueText settings fetch text ctx))
   \<and> populated (fst (optimizeContent settings fetch text))
   \<and> populated (fst (checkGrammar settings fetch text))
   \<and> populated (fst (translateText settings fetch text lang))
   \<and> populated (fst (generateSummary settings fetch text len))
   \<and> populated (fst (generateTitle settings fetch text))
   \<and> populated (fst (customPrompt settings fetch text prompt))
   \<and> populated (fst (testConnection settings fetch))"
  unfolding continueText_def optimizeContent_def checkGrammar_def translateText_def
    generateSummary_def generateTitle_def customPrompt_def Let_def
  by (simp only: populated_callAPI populated_testConnection simp_thms)

text \<open>
  An answer \<^verbatim>\<open>{"choices": [{"message": {"content": " hello "}}]}\<close> to an optimization:
  the result is the success with content \<^verbatim>\<open>hello\<close>, and it is populated.
\<close>

theorem results_fully_populated_witness:
  "populated (fst (optimizeContent
      (Some \<lparr>apiUrl = ascii ''http://h/v1'', apiKey = ascii ''k'', model = ascii ''m'',
             enabled = True\<rparr>)
      (answering \<lparr>status = 200, json_result = Inr (JObj [(ascii ''choices'',
          JArr [JObj [(ascii ''message'',
            JObj [(ascii ''content'', JStr (ascii '' hello ''))])]])])\<rparr>)
      (ascii ''x'')))
   \<and> fst (optimizeContent
      (Some \<lparr>apiUrl = ascii ''http://h/v1'', apiKey = ascii ''k'', model = ascii ''m'',
             enabled = True\<rparr>)
      (answering \<lparr>status = 200, json_result = Inr (JObj [(ascii ''choices'',
          JArr [JObj [(ascii ''message'',
            JObj [(ascii ''content'', JStr (ascii '' hello ''))])]])])\<rparr>)
      (ascii ''x''))
     = \<lparr>success = True, content = Some (ascii ''hello''), error = None\<rparr>"
  using results_fully_populated
    [of "Some \<lparr>apiUrl = ascii ''http://h/v1'', apiKey = ascii ''k'', model = ascii ''m'',
             enabled = True\<rparr>"
        "answering \<lparr>status = 200, json_result = Inr (JObj [(ascii ''choices'',
          JArr [JObj [(ascii ''message'',
            JObj [(ascii ''content'', JStr (ascii '' hello ''))])]])])\<rparr>"
        "ascii ''x''"]
  by (simp add: optimizeContent_def callAPI_def isAvailable_def answering_def Let_def
      readResponse_def ok_def extractContent_def getProp_def optProp_def optIndex0_def succeeded_def
      trim_def isWhiteSpace_def ascii_def)

subsection \<open>Responses with an error status\<close>

lemma extractErrorMessage_field:
  "data \<noteq> JNull \<Longrightarrow> extractErrorMessage data = Inr (errorMessageField data)"
proof (cases data)
  case (JObj kvs)
  show ?thesis
  proof (cases "map_of kvs (ascii ''error'')")
    case None
    with JObj show ?thesis
      by (simp add: extractErrorMessage_def getProp_def optProp_def errorMessageField_def)
  next
    case (Some err)
    with JObj show ?thesis
      by (cases err)
         (simp_all add: extractErrorMessage_def getProp_def optProp_def errorMessageField_def)
  qed
qed (simp_all add: extractErrorMessage_def getProp_def optProp_def errorMessageField_def)

lemma readResponse_error_message:
  assumes "\<not> ok response" "json_result response = Inr data"
    "errorMessageField data = Some m" "truthy m"
  shows "readResponse response = failed m"
proof -
  from assms(3) have "data \<noteq> JNull"
    by (auto simp: errorMessageField_def)
  then have "extractErrorMessage data = Inr (Some m)"
    using assms(3) by (simp add: extractErrorMessage_field)
  with assms show ?thesis
    by (simp add: readResponse_def)
qed

lemma readResponse_error_generic:
  assumes "\<not> ok response" "json_result response = Inr data" "data \<noteq> JNull"
    "\<forall>m. errorMessageField data = Some m \<longrightarrow> \<not> truthy m"
  shows "readResponse response
    = failed (JStr (err_requestFailedPrefix @ decimal (status response)))"
proof -
  have "extractErrorMessage data = Inr (errorMessageField data)"
    using assms(3) by (rule extractErrorMessage_field)
  with assms show ?thesis
    by (cases "errorMessageField data") (simp_all add: readResponse_def)
qed

lemma readResponse_error_unparsed:
  assumes "\<not> ok response" "json_result response = Inl e"
  shows "readResponse response
    = failed (JStr (err_requestFailedPrefix @ decimal (status response)))"
  using assms
  by (simp add: readResponse_def extractErrorMessage_def getProp_def optProp_def)

lemma decimal_500: "decimal 500 = ascii ''500''"
  by (simp add: decimal.simps [of 500] decimal.simps [of 50] decimal.simps [of 5] ascii_def)

text \<open>
  Claim C4, as stated, fails where the field is present and empty: a 500 response with
  body \<^verbatim>\<open>{"error": {"message": ""}}\<close> yields the generic message with the status, not
  the field.
\<close>

theorem empty_error_message_counterexample:
  "errorMessageField (JObj [(ascii ''error'', JObj [(ascii ''message'', JStr [])])])
     = Some (JStr [])
   \<and> fst (callAPI (Some exampleSettings)
        (answering \<lparr>status = 500, json_result =
           Inr (JObj [(ascii ''error'', JObj [(ascii ''message'', JStr [])])])\<rparr>)
        [] noOptions)
     = \<lparr>success = False, content = None,
        error = Some (JStr (err_requestFailedPrefix @ ascii ''500''))\<rparr>
   \<and> JStr (err_requestFailedPrefix @ ascii ''500'') \<noteq> JStr []"
  by (simp add: callAPI_def isAvailable_def exampleSettings_def answering_def Let_def
      readResponse_def ok_def extractErrorMessage_def getProp_def optProp_def
      errorMessageField_def failed_def decimal_500 err_requestFailedPrefix_def ascii_def)

text \<open>
  Claim C4, amended. For every response with a status outside 200..299 to a chat
  request: when the parsed body has the field \<^verbatim>\<open>error.message\<close> and it is truthy (a
  non-empty string, for one), the result is the failure whose \<^verbatim>\<open>error\<close> is that field;
  when the body does not parse, or parses to a value other than \<^verbatim>\<open>null\<close> in which the
  field is absent or falsy, the result is the failure whose \<^verbatim>\<open>error\<close> is the
  request-failed text followed by the status in decimal.
\<close>

theorem error_status_reported:
  assumes "isAvailable (Some cfg)"
    and "fetch (chatRequest cfg msgs options) = Resolved response"
    and "\<not> ok response"
  shows "(\<forall>data m. json_result response = Inr data \<and> errorMessageField data = Some m
            \<and> truthy m \<longrightarrow>
          fst (callAPI (Some cfg) fetch msgs options)
            = \<lparr>success = False, content = None, error = Some m\<rparr>)
       \<and> ((\<exists>e. json_result response = Inl e)
           \<or> (\<exists>data. json_result response = Inr data \<and> data \<noteq> JNull
                 \<and> (\<forall>m. errorMessageField data = Some m \<longrightarrow> \<not> truthy m)) \<longrightarrow>
          fst (callAPI (Some cfg) fetch msgs options)
            = \<lparr>success = False, content = None,
               error = Some (JStr (err_requestFailedPrefix @ decimal (status response)))\<rparr>)"
proof -
  have call: "fst (callAPI (Some cfg) fetch msgs options) = readResponse response"
    using assms(1,2) by (simp add: callAPI_available)
  show ?thesis
    unfolding call
    using readResponse_error_message [OF assms(3)] readResponse_error_generic [OF assms(3)]
      readResponse_error_unparsed [OF assms(3)]
    by (auto simp: failed_def)
qed

text \<open>
  The example of the claim: a 500 response with body
  \<^verbatim>\<open>{"error": {"message": "boom"}}\<close> yields the error \<^verbatim>\<open>boom\<close>.
\<close>

theorem error_status_reported_witness:
  "isAvailable (Some exampleSettings)
   \<and> \<not> ok \<lparr>status = 500, json_result =
        Inr (JObj [(ascii ''error'', JObj [(ascii ''message'', JStr (ascii ''boom''))])])\<rparr>
   \<and> fst (callAPI (Some exampleSettings)
        (answering \<lparr>status = 500, json_result =
           Inr (JObj [(ascii ''error'', JObj [(ascii ''message'', JStr (ascii ''boom''))])])\<rparr>)
        [] noOptions)
     = \<lparr>success = False, content = None, error = Some (JStr (ascii ''boom''))\<rparr>"
proof -
  let ?response = "\<lparr>status = 500, json_result =
     Inr (JObj [(ascii ''error'', JObj [(ascii ''message'', JStr (ascii ''boom''))])])\<rparr>"
  have av: "isAvailable (Some exampleSettings)"
    by (simp add: isAvailable_def exampleSettings_def ascii_def)
  have fetched: "answering ?response (chatRequest exampleSettings [] noOptions)
      = Resolved ?response"
    by (simp add: answering_def)
  have bad: "\<not> ok ?response"
    by (simp add: ok_def)
  have field: "errorMessageField
      (JObj [(ascii ''error'', JObj [(ascii ''message'', JStr (ascii ''boom''))])])
      = Some (JStr (ascii ''boom''))"
    by (simp add: errorMessageField_def ascii_def)
  from error_status_reported
    [of exampleSettings "answering ?response" "[]" noOptions ?response, OF av fetched bad]
    field
  show ?thesis using av bad by (simp add: ascii_def)
qed

subsection \<open>Responses with a success status\<close>

lemma extractContent_field:
  "data \<noteq> JNull \<Longrightarrow> extractContent data = Inr (contentField data)"
  by (cases data)
     (auto simp: extractContent_def getProp_def optProp_def optIndex0_def contentField_def
       split: option.splits json.splits)

lemma extractContent_null: "extractContent JNull = Inl (readOfNull (ascii ''choices''))"
  by (simp add: extractContent_def getProp_def)

lemma success_failed [simp]: "\<not> success (failed e)"
  by (simp add: failed_def)

lemma success_caught [simp]: "\<not> success (caught e)"
  by (simp add: caught_def)

lemma readResponse_string_content:
  assumes "ok response" "json_result response = Inr data"
    "contentField data = Some (JStr s)"
  shows "readResponse response
    = (if s = [] then failed (JStr err_malformed) else succeeded (trim s))"
proof -
  from assms(3) have "data \<noteq> JNull"
    by (auto simp: contentField_def)
  then have "extractContent data = Inr (Some (JStr s))"
    using assms(3) by (simp add: extractContent_field)
  with assms(1,2) show ?thesis
    by (simp add: readResponse_def)
qed

lemma readResponse_missing_content:
  assumes "ok response" "json_result response = Inr data" "data \<noteq> JNull"
    "contentField data = None"
  shows "readResponse response = failed (JStr err_malformed)"
  using assms by (simp add: readResponse_def extractContent_field)

lemma readResponse_json_rejected:
  assumes "ok response" "json_result response = Inl e"
  shows "readResponse response = caught e"
  using assms by (simp add: readResponse_def)

lemma callAPI_fetch_rejected:
  "isAvailable (Some cfg) \<Longrightarrow>
     callAPI (Some cfg) (rejecting e) msgs options
       = (caught e, [chatRequest cfg msgs options])"
  by (simp add: callAPI_available rejecting_def)

lemma callTrim_success: "(\<exists>t. callTrim c = Inr t) \<longleftrightarrow> (\<exists>s. c = JStr s)"
  by (cases c) simp_all

lemma success_readResponse:
  assumes "ok response"
  shows "success (readResponse response) \<longleftrightarrow>
     (\<exists>data s. json_result response = Inr data \<and> contentField data = Some (JStr s) \<and> s \<noteq> [])"
proof (cases "json_result response")
  case (Inl e)
  with assms show ?thesis
    by (simp add: readResponse_json_rejected)
next
  case (Inr data)
  show ?thesis
  proof (cases "data = JNull")
    case True
    with Inr assms show ?thesis
      by (simp add: readResponse_def extractContent_null contentField_def)
  next
    case False
    show ?thesis
    proof (cases "contentField data")
      case None
      with Inr assms False show ?thesis
        by (simp add: readResponse_missing_content)
    next
      case (Some c)
      show ?thesis
      proof (cases c)
        case (JStr s)
        with Some Inr assms show ?thesis
          by (simp add: readResponse_string_content succeeded_def)
      qed (use Some Inr assms False in
            \<open>simp_all add: readResponse_def extractContent_field\<close>)
    qed
  qed
qed

lemma rev_dropWhile_takeWhile:
  "rev (dropWhile P (rev t)) @ rev (takeWhile P (rev t)) = t"
proof -
  have "rev (dropWhile P (rev t)) @ rev (takeWhile P (rev t))
      = rev (takeWhile P (rev t) @ dropWhile P (rev t))"
    by (simp only: rev_append)
  then show ?thesis
    by (simp only: takeWhile_dropWhile_id rev_rev_ident)
qed

lemma trim_decomposition:
  "\<exists>pre post. s = pre @ trim s @ post
     \<and> (\<forall>c \<in> set pre. isWhiteSpace c) \<and> (\<forall>c \<in> set post. isWhiteSpace c)"
proof -
  define t where "t = dropWhile isWhiteSpace s"
  define post where "post = rev (takeWhile isWhiteSpace (rev t))"
  have t: "trim s @ post = t"
    unfolding trim_def post_def t_def by (rule rev_dropWhile_takeWhile)
  have "takeWhile isWhiteSpace s @ t = s"
    by (simp add: t_def)
  with t have "s = takeWhile isWhiteSpace s @ trim s @ post"
    by simp
  moreover have "\<forall>c \<in> set (takeWhile isWhiteSpace s). isWhiteSpace c"
    by (auto dest: set_takeWhileD)
  moreover have "\<forall>c \<in> set post. isWhiteSpace c"
    by (auto simp: post_def dest: set_takeWhileD)
  ultimately show ?thesis by blast
qed

lemma trim_ends:
  assumes "trim s \<noteq> []"
  shows "\<not> isWhiteSpace (hd (trim s)) \<and> \<not> isWhiteSpace (last (trim s))"
proof -
  define t where "t = dropWhile isWhiteSpace s"
  define u where "u = dropWhile isWhiteSpace (rev t)"
  define post where "post = rev (takeWhile isWhiteSpace (rev t))"
  have trim: "trim s = rev u"
    by (simp add: trim_def t_def u_def)
  with assms have u: "u \<noteq> []" by simp
  then have "\<not> isWhiteSpace (hd u)"
    unfolding u_def by (rule hd_dropWhile)
  then have last: "\<not> isWhiteSpace (last (trim s))"
    using u by (simp add: trim last_rev)
  have t: "trim s @ post = t"
    unfolding trim_def post_def t_def by (rule rev_dropWhile_takeWhile)
  from assms have "hd (trim s @ post) = hd (trim s)"
    by (rule hd_append2)
  with t have hd: "hd t = hd (trim s)"
    by simp
  from t assms have "t \<noteq> []"
    by auto
  then have "\<not> isWhiteSpace (hd t)"
    unfolding t_def by (rule hd_dropWhile)
  with hd last show ?thesis by simp
qed

lemma trim_changes:
  assumes "s \<noteq> []" "isWhiteSpace (hd s) \<or> isWhiteSpace (last s)"
  shows "trim s \<noteq> s"
proof
  assume eq: "trim s = s"
  with assms(1) have "trim s \<noteq> []" by simp
  from trim_ends [OF this] assms(2) show False
    by (simp add: eq)
qed

text \<open>
  Claim C5 at the body \<^verbatim>\<open>null\<close>, which lacks \<^verbatim>\<open>choices[0].message.content\<close>: a 200
  response with it yields the failure carrying the message of the TypeError that the
  read of \<^verbatim>\<open>data.choices\<close> throws, which is not the malformed-response text.
\<close>

theorem null_body_not_reported_malformed:
  "ok \<lparr>status = 200, json_result = Inr JNull\<rparr>
   \<and> contentField JNull = None
   \<and> fst (callAPI (Some exampleSettings)
        (answering \<lparr>status = 200, json_result = Inr JNull\<rparr>) [] noOptions)
     = \<lparr>success = False, content = None,
        error = Some (JStr (ascii ''Cannot read properties of null (reading ''
                  @ [39] @ ascii ''choices'' @ [39, 41]))\<rparr>
   \<and> fst (callAPI (Some exampleSettings)
        (answering \<lparr>status = 200, json_result = Inr JNull\<rparr>) [] noOptions)
     \<noteq> \<lparr>success = False, content = None, error = Some (JStr err_malformed)\<rparr>"
  by (simp add: callAPI_def isAvailable_def exampleSettings_def answering_def Let_def
      readResponse_def ok_def extractContent_null contentField_def caught_def failed_def
      readOfNull_def err_malformed_def ascii_def)

text \<open>
  Claim C10. For every response with a status in 200..299 to a chat request: the result
  is a success exactly when the body parses and its field
  \<^verbatim>\<open>choices[0].message.content\<close> is a non-empty string. Then the content of the result is
  that string trimmed: the string is white space, the content, white space; the content,
  unless empty, neither starts nor ends with white space; and it differs from the field
  whenever the field starts or ends with white space. When the field is the empty string
  the result is the malformed-response failure.
\<close>

theorem success_iff_nonempty_content:
  assumes "isAvailable (Some cfg)"
    and "fetch (chatRequest cfg msgs options) = Resolved response"
    and "ok response"
  shows "(success (fst (callAPI (Some cfg) fetch msgs options)) \<longleftrightarrow>
            (\<exists>data s. json_result response = Inr data
               \<and> contentField data = Some (JStr s) \<and> s \<noteq> []))
       \<and> (\<forall>data s. json_result response = Inr data
              \<and> contentField data = Some (JStr s) \<and> s \<noteq> [] \<longrightarrow>
            fst (callAPI (Some cfg) fetch msgs options)
              = \<lparr>success = True, content = Some (trim s), error = None\<rparr>
            \<and> (\<exists>pre post. s = pre @ trim s @ post
                  \<and> (\<forall>c \<in> set pre. isWhiteSpace c) \<and> (\<forall>c \<in> set post. isWhiteSpace c))
            \<and> (trim s = []
                \<or> (\<not> isWhiteSpace (hd (trim s)) \<and> \<not> isWhiteSpace (last (trim s))))
            \<and> (isWhiteSpace (hd s) \<or> isWhiteSpace (last s) \<longrightarrow>
                content (fst (callAPI (Some cfg) fetch msgs options)) \<noteq> Some s))
       \<and> (\<forall>data. json_result response = Inr data
              \<and> contentField data = Some (JStr []) \<longrightarrow>
            fst (callAPI (Some cfg) fetch msgs options)
              = \<lparr>success = False, content = None, error = Some (JStr err_malformed)\<rparr>)"
proof -
  have call: "fst (callAPI (Some cfg) fetch msgs options) = readResponse response"
    using assms(1,2) by (simp add: callAPI_available)
  have iff: "success (readResponse response) \<longleftrightarrow>
      (\<exists>data s. json_result response = Inr data
         \<and> contentField data = Some (JStr s) \<and> s \<noteq> [])"
    using assms(3) by (rule success_readResponse)
  have trimmed: "readResponse response
        = \<lparr>success = True, content = Some (trim s), error = None\<rparr>
      \<and> (\<exists>pre post. s = pre @ trim s @ post
            \<and> (\<forall>c \<in> set pre. isWhiteSpace c) \<and> (\<forall>c \<in> set post. isWhiteSpace c))
      \<and> (trim s = [] \<or> (\<not> isWhiteSpace (hd (trim s)) \<and> \<not> isWhiteSpace (last (trim s))))
      \<and> (isWhiteSpace (hd s) \<or> isWhiteSpace (last s) \<longrightarrow>
          content (readResponse response) \<noteq> Some s)"
    if "json_result response = Inr data" "contentField data = Some (JStr s)" "s \<noteq> []"
    for data s
  proof -
    have r: "readResponse response = \<lparr>success = True, content = Some (trim s), error = None\<rparr>"
      using readResponse_string_content [OF assms(3) that(1,2)] that(3)
      by (simp add: succeeded_def)
    show ?thesis
      using trim_decomposition [of s] trim_ends [of s] trim_changes [OF that(3)]
      by (auto simp: r)
  qed
  have empty: "readResponse response
        = \<lparr>success = False, content = None, error = Some (JStr err_malformed)\<rparr>"
    if "json_result response = Inr data" "contentField data = Some (JStr [])" for data
    using readResponse_string_content [OF assms(3) that] by (simp add: failed_def)
  show ?thesis
    unfolding call using iff trimmed empty by blast
qed

text \<open>
  A 200 response whose content is \<^verbatim>\<open>" hi\n"\<close>: the result is the success with content
  \<^verbatim>\<open>hi\<close>.
\<close>

theorem success_iff_nonempty_content_witness:
  "isAvailable (Some exampleSettings)
   \<and> ok \<lparr>status = 200, json_result = Inr (JObj [(ascii ''choices'',
        JArr [JObj [(ascii ''message'', JObj [(ascii ''content'', JStr [32, 104, 105, 10])])]])])\<rparr>
   \<and> fst (callAPI (Some exampleSettings)
        (answering \<lparr>status = 200, json_result = Inr (JObj [(ascii ''choices'',
           JArr [JObj [(ascii ''message'',
             JObj [(ascii ''content'', JStr [32, 104, 105, 10])])]])])\<rparr>)
        [] noOptions)
     = \<lparr>success = True, content = Some (ascii ''hi''), error = None\<rparr>"
proof -
  let ?data = "JObj [(ascii ''choices'',
     JArr [JObj [(ascii ''message'', JObj [(ascii ''content'', JStr [32, 104, 105, 10])])]])]"
  let ?response = "\<lparr>status = 200, json_result = Inr ?data\<rparr>"
  have av: "isAvailable (Some exampleSettings)"
    by (simp add: isAvailable_def exampleSettings_def ascii_def)
  have fetched: "answering ?response (chatRequest exampleSettings [] noOptions)
      = Resolved ?response"
    by (simp add: answering_def)
  have good: "ok ?response"
    by (simp add: ok_def)
  have field: "contentField ?data = Some (JStr [32, 104, 105, 10])"
    by (simp add: contentField_def ascii_def)
  have trimmed: "trim [32, 104, 105, 10] = ascii ''hi''"
    by (simp add: trim_def isWhiteSpace_def ascii_def)
  from success_iff_nonempty_content
    [of exampleSettings "answering ?response" "[]" noOptions ?response, OF av fetched good]
    field
  show ?thesis using av good by (simp add: trimmed)
qed

section \<open>Properties of the file routes\<close>

lemma getFile_served_has_prefix:
  "code (getFile projectRoot fs filePath) = 200 \<Longrightarrow> prefix projectRoot (pathJoin projectRoot filePath)"
  by (auto simp: getFile_def Let_def errorReply_def split: if_splits option.splits)

lemma getFile_denied_without_prefix:
  "\<not> prefix projectRoot (pathJoin projectRoot filePath) \<Longrightarrow>
     getFile projectRoot fs filePath = errorReply 403 ''Access denied: Path outside project root''"
  by (simp add: getFile_def Let_def)

text \<open>
  Claim C6 at the root \<^verbatim>\<open>/srv/app\<close> and the requested path
  \<^verbatim>\<open>../app-secrets/key.txt\<close>: the joined path \<^verbatim>\<open>/srv/app-secrets/key.txt\<close> is outside
  the root, yet it starts with the root's text, and the route answers 200 with the
  content of the file.
\<close>

theorem sibling_directory_served:
  "pathJoin (ascii ''/srv/app'') (ascii ''../app-secrets/key.txt'')
     = ascii ''/srv/app-secrets/key.txt''
   \<and> \<not> insideRoot (ascii ''/srv/app'') (ascii ''/srv/app-secrets/key.txt'')
   \<and> getFile (ascii ''/srv/app'') siblingFileSystem (ascii ''../app-secrets/key.txt'')
     = \<lparr>code = 200,
        payload = JObj
          [(ascii ''success'', JBool True),
           (ascii ''data'', JObj
              [(ascii ''content'', JStr (ascii ''secret'')),
               (ascii ''path'', JStr (ascii ''../app-secrets/key.txt'')),
               (ascii ''size'', JNum 6),
               (ascii ''lastModified'', JStr (ascii ''2024-01-01T00:00:00.000Z''))])]\<rparr>"
proof -
  have joined: "pathJoin (ascii ''/srv/app'') (ascii ''../app-secrets/key.txt'')
      = ascii ''/srv/app-secrets/key.txt''"
    by (simp add: pathJoin_def normalize_def Let_def ascii_def)
  have outside: "\<not> insideRoot (ascii ''/srv/app'') (ascii ''/srv/app-secrets/key.txt'')"
    by (simp add: insideRoot_def ascii_def)
  have served: "getFile (ascii ''/srv/app'') siblingFileSystem (ascii ''../app-secrets/key.txt'')
     = \<lparr>code = 200,
        payload = JObj
          [(ascii ''success'', JBool True),
           (ascii ''data'', JObj
              [(ascii ''content'', JStr (ascii ''secret'')),
               (ascii ''path'', JStr (ascii ''../app-secrets/key.txt'')),
               (ascii ''size'', JNum 6),
               (ascii ''lastModified'', JStr (ascii ''2024-01-01T00:00:00.000Z''))])]\<rparr>"
    unfolding getFile_def joined Let_def
    by (simp add: siblingFileSystem_def ascii_def)
  from joined outside served show ?thesis by blast
qed

subsection \<open>The file tree\<close>

lemma keepEntry_iff: "keepEntry entry \<longleftrightarrow> \<not> excluded (name entry)"
  by (auto simp: keepEntry_def excluded_def)

lemma sortBy_Cons: "sortBy cmp (x # xs) = insertBy cmp x (sortBy cmp xs)"
  by (simp add: sortBy_def)

lemma mset_insertBy: "mset (insertBy cmp x xs) = add_mset x (mset xs)"
  by (induction xs) auto

lemma mset_sortBy: "mset (sortBy cmp xs) = mset xs"
  by (induction xs) (simp_all add: sortBy_def mset_insertBy)

lemma set_insertBy: "set (insertBy cmp x xs) = insert x (set xs)"
  by (induction xs) auto

lemma set_sortBy: "set (sortBy cmp xs) = set xs"
  by (induction xs) (simp_all add: sortBy_def set_insertBy)

lemma consistentOn_subset:
  assumes "consistentOn S cmp" "T \<subseteq> S"
  shows "consistentOn T cmp"
  unfolding consistentOn_def
proof (intro conjI ballI impI)
  fix a b
  assume "a \<in> T" "b \<in> T"
  with assms(2) have "a \<in> S" "b \<in> S" by blast+
  with assms(1) show "cmp a b \<le> 0 \<or> cmp b a \<le> 0"
    unfolding consistentOn_def by blast
next
  fix a b c
  assume "a \<in> T" "b \<in> T" "c \<in> T" and le: "cmp a b \<le> 0 \<and> cmp b c \<le> 0"
  with assms(2) have "a \<in> S" "b \<in> S" "c \<in> S" by blast+
  with assms(1) le show "cmp a c \<le> 0"
    unfolding consistentOn_def by blast
qed

lemma sorted_insertBy:
  assumes "consistentOn (insert x (set xs)) cmp"
    and "sorted_wrt (\<lambda>a b. cmp a b \<le> 0) xs"
  shows "sorted_wrt (\<lambda>a b. cmp a b \<le> 0) (insertBy cmp x xs)"
  using assms
proof (induction xs)
  case Nil
  then show ?case by simp
next
  case (Cons y ys)
  have total: "cmp a b \<le> 0 \<or> cmp b a \<le> 0"
    if "a \<in> insert x (set (y # ys))" "b \<in> insert x (set (y # ys))" for a b
    using Cons.prems(1) that unfolding consistentOn_def by blast
  have trans: "cmp a c \<le> 0"
    if "a \<in> insert x (set (y # ys))" "b \<in> insert x (set (y # ys))"
      "c \<in> insert x (set (y # ys))" "cmp a b \<le> 0" "cmp b c \<le> 0" for a b c
    using Cons.prems(1) that unfolding consistentOn_def by blast
  show ?case
  proof (cases "cmp x y \<le> 0")
    case True
    have "cmp x z \<le> 0" if "z \<in> set ys" for z
    proof -
      from Cons.prems(2) that have "cmp y z \<le> 0" by simp
      with True show ?thesis
        using trans [of x y z] that by simp
    qed
    with True Cons.prems(2) show ?thesis by simp
  next
    case False
    then have yx: "cmp y x \<le> 0"
      using total [of x y] by simp
    have sub: "consistentOn (insert x (set ys)) cmp"
      using Cons.prems(1) by (rule consistentOn_subset) auto
    from Cons.prems(2) have "sorted_wrt (\<lambda>a b. cmp a b \<le> 0) ys" by simp
    with sub have "sorted_wrt (\<lambda>a b. cmp a b \<le> 0) (insertBy cmp x ys)"
      by (rule Cons.IH)
    moreover have "\<forall>z \<in> set (insertBy cmp x ys). cmp y z \<le> 0"
      using yx Cons.prems(2) by (simp add: set_insertBy)
    ultimately show ?thesis using False by simp
  qed
qed

lemma sorted_sortBy:
  assumes "consistentOn (set xs) cmp"
  shows "sorted_wrt (\<lambda>a b. cmp a b \<le> 0) (sortBy cmp xs)"
  using assms
proof (induction xs)
  case Nil
  then show ?case by (simp add: sortBy_def)
next
  case (Cons x xs)
  from Cons.prems have "consistentOn (set xs) cmp"
    by (rule consistentOn_subset) auto
  then have "sorted_wrt (\<lambda>a b. cmp a b \<le> 0) (sortBy cmp xs)"
    by (rule Cons.IH)
  moreover from Cons.prems have "consistentOn (insert x (set (sortBy cmp xs))) cmp"
    by (simp add: set_sortBy)
  ultimately show ?case
    unfolding sortBy_Cons by (intro sorted_insertBy)
qed

lemma compareNodes_listedBefore:
  "compareNodes lc a b \<le> 0 \<longleftrightarrow> listedBefore lc a b"
  by (cases "nodeType a"; cases "nodeType b") (simp_all add: compareNodes_def listedBefore_def)

lemma consistent_compareNodes:
  assumes "consistentOn (title ` S) lc"
  shows "consistentOn S (compareNodes lc)"
proof -
  have total: "lc (title a) (title b) \<le> 0 \<or> lc (title b) (title a) \<le> 0"
    if "a \<in> S" "b \<in> S" for a b
    using assms that unfolding consistentOn_def by blast
  have trans: "lc (title a) (title c) \<le> 0"
    if "a \<in> S" "b \<in> S" "c \<in> S" "lc (title a) (title b) \<le> 0" "lc (title b) (title c) \<le> 0"
    for a b c
    using assms that unfolding consistentOn_def by blast
  have tot: "listedBefore lc a b \<or> listedBefore lc b a" if "a \<in> S" "b \<in> S" for a b
    using total [OF that]
    by (cases "nodeType a"; cases "nodeType b") (auto simp: listedBefore_def)
  have tr: "listedBefore lc a c"
    if "a \<in> S" "b \<in> S" "c \<in> S" "listedBefore lc a b" "listedBefore lc b c" for a b c
    using trans [OF that(1-3)] that(4,5)
    by (cases "nodeType a"; cases "nodeType b"; cases "nodeType c")
       (simp_all add: listedBefore_def)
  show ?thesis
    unfolding consistentOn_def compareNodes_listedBefore
  proof (intro conjI ballI impI)
    fix a b
    assume "a \<in> S" "b \<in> S"
    then show "listedBefore lc a b \<or> listedBefore lc b a"
      by (rule tot)
  next
    fix a b c
    assume "a \<in> S" "b \<in> S" "c \<in> S" and ab: "listedBefore lc a b \<and> listedBefore lc b c"
    then show "listedBefore lc a c"
      using tr [of a b c] by simp
  qed
qed

text \<open>What the loop pushes: items for a first part of the entries, in their order.\<close>

lemma pushItems_prefix:
  "prefix (map (\<lambda>n. (title n, nodeType n)) (fst (pushItems lc rel entries)))
     (map (\<lambda>e. (name e, kindOf e)) entries)"
proof (induction entries)
  case Nil
  then show ?case by simp
next
  case (Cons entry rest)
  then show ?case
    by (cases "pushItems lc rel rest")
       (simp add: Let_def kindOf_def split: option.split)
qed

lemma pushItems_complete:
  assumes "\<forall>e \<in> set entries. statResult (target e) \<noteq> None"
  shows "snd (pushItems lc rel entries)
    \<and> map (\<lambda>n. (title n, nodeType n)) (fst (pushItems lc rel entries))
        = map (\<lambda>e. (name e, kindOf e)) entries"
  using assms
proof (induction entries)
  case Nil
  then show ?case by simp
next
  case (Cons entry rest)
  then show ?case
    by (cases "pushItems lc rel rest")
       (auto simp: Let_def kindOf_def split: option.split)
qed

lemma buildFileTree_titles:
  assumes "n \<in> set (buildFileTree lc dir rel)"
  shows "\<exists>entries e. readdirResult dir = Some entries \<and> e \<in> set entries \<and> keepEntry e
           \<and> title n = name e"
proof (cases "readdirResult dir")
  case None
  with assms show ?thesis by (simp add: buildFileTree.simps)
next
  case (Some entries)
  obtain items completed
    where p: "pushItems lc rel (filter keepEntry entries) = (items, completed)"
    by (cases "pushItems lc rel (filter keepEntry entries)")
  from assms Some p have "n \<in> set items"
    by (simp add: buildFileTree.simps set_sortBy split: if_splits)
  then have "(title n, nodeType n) \<in> set (map (\<lambda>n. (title n, nodeType n)) items)"
    by (rule imageI [of n "set items" "\<lambda>n. (title n, nodeType n)", unfolded set_map [symmetric]])
  moreover have "prefix (map (\<lambda>n. (title n, nodeType n)) items)
      (map (\<lambda>e. (name e, kindOf e)) (filter keepEntry entries))"
    using pushItems_prefix [of lc rel "filter keepEntry entries"] by (simp add: p)
  then have "set (map (\<lambda>n. (title n, nodeType n)) items)
      \<subseteq> set (map (\<lambda>e. (name e, kindOf e)) (filter keepEntry entries))"
    by (rule set_mono_prefix)
  ultimately have "(title n, nodeType n)
      \<in> set (map (\<lambda>e. (name e, kindOf e)) (filter keepEntry entries))"
    by (rule subsetD [rotated])
  then obtain e where "e \<in> set (filter keepEntry entries)" "(title n, nodeType n) = (name e, kindOf e)"
    unfolding set_map by (rule imageE)
  then have "e \<in> set entries" "keepEntry e" "title n = name e"
    by simp_all
  with Some show ?thesis by blast
qed

lemma buildFileTree_complete:
  assumes "readdirResult dir = Some entries"
    and "\<forall>e \<in> set entries. \<not> excluded (name e) \<longrightarrow> statResult (target e) \<noteq> None"
  shows "\<exists>items. buildFileTree lc dir rel = sortBy (compareNodes lc) items
           \<and> map (\<lambda>n. (title n, nodeType n)) items
               = map (\<lambda>e. (name e, kindOf e)) (filter (\<lambda>e. \<not> excluded (name e)) entries)"
proof -
  have kept: "filter keepEntry entries = filter (\<lambda>e. \<not> excluded (name e)) entries"
    by (rule filter_cong) (simp_all add: keepEntry_iff)
  obtain items completed
    where p: "pushItems lc rel (filter keepEntry entries) = (items, completed)"
    by (cases "pushItems lc rel (filter keepEntry entries)")
  have "\<forall>e \<in> set (filter keepEntry entries). statResult (target e) \<noteq> None"
    using assms(2) by (simp add: keepEntry_iff)
  from pushItems_complete [OF this, of lc rel]
  have "completed" and "map (\<lambda>n. (title n, nodeType n)) items
      = map (\<lambda>e. (name e, kindOf e)) (filter keepEntry entries)"
    by (simp_all add: p)
  with assms(1) p kept have "buildFileTree lc dir rel = sortBy (compareNodes lc) items
      \<and> map (\<lambda>n. (title n, nodeType n)) items
          = map (\<lambda>e. (name e, kindOf e)) (filter (\<lambda>e. \<not> excluded (name e)) entries)"
    by (simp add: buildFileTree.simps)
  then show ?thesis by (rule exI)
qed

text \<open>
  When \<^verbatim>\<open>fs.stat\<close> throws at an entry, the loop has pushed the items of the entries
  before it, and these are what the \<^verbatim>\<open>catch\<close> returns, in the order of the directory.
\<close>

lemma pushItems_truncated:
  assumes "\<forall>x \<in> set pre. statResult (target x) \<noteq> None"
    and "statResult (target e) = None"
  shows "\<not> snd (pushItems lc rel (pre @ e # post))
    \<and> map (\<lambda>n. (title n, nodeType n)) (fst (pushItems lc rel (pre @ e # post)))
        = map (\<lambda>x. (name x, kindOf x)) pre"
  using assms(1)
proof (induction pre)
  case Nil
  then show ?case using assms(2) by (simp add: Let_def)
next
  case (Cons x pre)
  then show ?case
    by (cases "pushItems lc rel (pre @ e # post)")
       (auto simp: Let_def kindOf_def split: option.split)
qed

lemma buildFileTree_truncated:
  assumes "readdirResult dir = Some entries"
    and "filter (\<lambda>x. \<not> excluded (name x)) entries = pre @ e # post"
    and "\<forall>x \<in> set pre. statResult (target x) \<noteq> None"
    and "statResult (target e) = None"
  shows "map (\<lambda>n. (title n, nodeType n)) (buildFileTree lc dir rel)
    = map (\<lambda>x. (name x, kindOf x)) pre"
proof -
  have kept: "filter keepEntry entries = pre @ e # post"
    using assms(2) by (simp add: keepEntry_iff [abs_def])
  obtain items completed
    where p: "pushItems lc rel (pre @ e # post) = (items, completed)"
    by (cases "pushItems lc rel (pre @ e # post)")
  from pushItems_truncated [OF assms(3,4), of lc rel post]
  have "\<not> completed" and "map (\<lambda>n. (title n, nodeType n)) items
      = map (\<lambda>x. (name x, kindOf x)) pre"
    by (simp_all add: p)
  with assms(1) kept p show ?thesis
    by (simp add: buildFileTree.simps)
qed

text \<open>
  No listing holds an excluded entry: one whose name starts with a dot and is not
  \<^verbatim>\<open>.gitignore\<close> or \<^verbatim>\<open>.env.example\<close>, or is one of \<^verbatim>\<open>node_modules\<close>, \<^verbatim>\<open>dist\<close>,
  \<^verbatim>\<open>dist-electron\<close>, \<^verbatim>\<open>build\<close>, \<^verbatim>\<open>release\<close>. For a directory that can be read, whose
  entries that are not excluded can all be examined with \<^verbatim>\<open>fs.stat\<close>, and a collation
  that is total and transitive on their names, the listing holds exactly these entries,
  directories as folders and the others as files, and it is sorted: no file before a
  folder, and within a kind no title that compares greater before one that compares
  smaller.
\<close>

lemma listing_filtered_and_sorted:
  "(\<forall>n \<in> set (buildFileTree localeCompare dir relativePath). \<not> excluded (title n))
   \<and> (readdirResult dir = Some entries
       \<and> (\<forall>e \<in> set entries. \<not> excluded (name e) \<longrightarrow> statResult (target e) \<noteq> None)
       \<and> consistentOn (name ` {e \<in> set entries. \<not> excluded (name e)}) localeCompare
      \<longrightarrow>
        mset (map (\<lambda>n. (title n, nodeType n)) (buildFileTree localeCompare dir relativePath))
          = mset (map (\<lambda>e. (name e, kindOf e))
                   (filter (\<lambda>e. \<not> excluded (name e)) entries))
        \<and> sorted_wrt (listedBefore localeCompare)
             (buildFileTree localeCompare dir relativePath))"
proof (intro conjI ballI impI)
  fix n
  assume "n \<in> set (buildFileTree localeCompare dir relativePath)"
  from buildFileTree_titles [OF this] show "\<not> excluded (title n)"
    by (auto simp: keepEntry_iff)
next
  assume hyps: "readdirResult dir = Some entries
       \<and> (\<forall>e \<in> set entries. \<not> excluded (name e) \<longrightarrow> statResult (target e) \<noteq> None)
       \<and> consistentOn (name ` {e \<in> set entries. \<not> excluded (name e)}) localeCompare"
  then obtain items
    where result: "buildFileTree localeCompare dir relativePath
        = sortBy (compareNodes localeCompare) items"
      and items: "map (\<lambda>n. (title n, nodeType n)) items
        = map (\<lambda>e. (name e, kindOf e)) (filter (\<lambda>e. \<not> excluded (name e)) entries)"
    using buildFileTree_complete [of dir entries localeCompare relativePath] by blast
  have "mset (map (\<lambda>n. (title n, nodeType n)) (sortBy (compareNodes localeCompare) items))
      = mset (map (\<lambda>n. (title n, nodeType n)) items)"
    by (simp only: mset_map mset_sortBy)
  then show "mset (map (\<lambda>n. (title n, nodeType n))
        (buildFileTree localeCompare dir relativePath))
      = mset (map (\<lambda>e. (name e, kindOf e)) (filter (\<lambda>e. \<not> excluded (name e)) entries))"
    by (simp only: result items)
  from items have "map fst (map (\<lambda>n. (title n, nodeType n)) items)
      = map fst (map (\<lambda>e. (name e, kindOf e)) (filter (\<lambda>e. \<not> excluded (name e)) entries))"
    by (rule arg_cong)
  then have "map title items = map name (filter (\<lambda>e. \<not> excluded (name e)) entries)"
    by (simp add: comp_def)
  then have "set (map title items)
      = set (map name (filter (\<lambda>e. \<not> excluded (name e)) entries))"
    by (rule arg_cong)
  then have "title ` set items = name ` {e \<in> set entries. \<not> excluded (name e)}"
    by simp
  with hyps have "consistentOn (title ` set items) localeCompare"
    by simp
  then have "consistentOn (set items) (compareNodes localeCompare)"
    by (rule consistent_compareNodes)
  then have "sorted_wrt (\<lambda>a b. compareNodes localeCompare a b \<le> 0)
      (sortBy (compareNodes localeCompare) items)"
    by (rule sorted_sortBy)
  then show "sorted_wrt (listedBefore localeCompare)
      (buildFileTree localeCompare dir relativePath)"
    by (simp only: result compareNodes_listedBefore)
qed

text \<open>
  A directory holding \<^verbatim>\<open>.git\<close>, \<^verbatim>\<open>a.md\<close>, \<^verbatim>\<open>b.txt\<close> and \<^verbatim>\<open>node_modules\<close> is
  listed as \<^verbatim>\<open>a.md\<close> then \<^verbatim>\<open>b.txt\<close>.
\<close>

lemma listing_of_example:
  "map title (buildFileTree codeUnitCompare exampleDirectory (ascii ''/''))
        = [ascii ''a.md'', ascii ''b.txt'']
   \<and> sorted_wrt (listedBefore codeUnitCompare)
        (buildFileTree codeUnitCompare exampleDirectory (ascii ''/''))"
proof -
  let ?entries = "[Dirent (ascii ''.git'') True emptyDirectory,
             Dirent (ascii ''a.md'') False plainFile,
             Dirent (ascii ''b.txt'') False plainFile,
             Dirent (ascii ''node_modules'') True emptyDirectory]"
  have listed: "readdirResult exampleDirectory = Some ?entries"
    by (simp add: exampleDirectory_def)
  have kept: "{e \<in> set ?entries. \<not> excluded (name e)}
      = {Dirent (ascii ''a.md'') False plainFile, Dirent (ascii ''b.txt'') False plainFile}"
    by (auto simp: excluded_def ascii_def)
  have stats: "\<forall>e \<in> set ?entries. \<not> excluded (name e) \<longrightarrow> statResult (target e) \<noteq> None"
    by (simp add: plainFile_def emptyDirectory_def)
  have order: "consistentOn (name ` {e \<in> set ?entries. \<not> excluded (name e)}) codeUnitCompare"
    unfolding kept by (simp add: consistentOn_def ascii_def)
  have titles: "map title (buildFileTree codeUnitCompare exampleDirectory (ascii ''/''))
      = [ascii ''a.md'', ascii ''b.txt'']"
    by (simp add: buildFileTree.simps exampleDirectory_def plainFile_def emptyDirectory_def
        keepEntry_def Let_def sortBy_def compareNodes_def ascii_def)
  from listing_filtered_and_sorted
    [of codeUnitCompare exampleDirectory "ascii ''/''" ?entries] listed stats order titles
  show ?thesis by blast
qed

text \<open>
  Claim C7 at a directory holding the file \<^verbatim>\<open>a.md\<close>, the folder \<^verbatim>\<open>b\<close> and a link to
  nothing, \<^verbatim>\<open>link\<close>, read in this order: \<^verbatim>\<open>fs.stat\<close> of the link throws after the
  two items before it are pushed, the sort is not reached, and the listing is the file
  \<^verbatim>\<open>a.md\<close> then the folder \<^verbatim>\<open>b\<close>, a file before a folder.
\<close>

theorem failed_stat_leaves_listing_unsorted:
  "readdirResult directoryWithDanglingLink
     = Some [Dirent (ascii ''a.md'') False plainFile,
             Dirent (ascii ''b'') True emptyDirectory,
             Dirent (ascii ''link'') False danglingLink]
   \<and> statResult danglingLink = None
   \<and> map title (buildFileTree codeUnitCompare directoryWithDanglingLink (ascii ''/''))
     = [ascii ''a.md'', ascii ''b'']
   \<and> map nodeType (buildFileTree codeUnitCompare directoryWithDanglingLink (ascii ''/''))
     = [File, Folder]
   \<and> \<not> sorted_wrt (listedBefore codeUnitCompare)
         (buildFileTree codeUnitCompare directoryWithDanglingLink (ascii ''/''))"
  by (simp add: buildFileTree.simps directoryWithDanglingLink_def plainFile_def
      emptyDirectory_def danglingLink_def keepEntry_def Let_def listedBefore_def ascii_def)

section \<open>Properties of the scroll synchronization\<close>

lemma guarded_handlers_ignore:
  "handleEditorScroll True s event = s" "handleRendererScroll True s event = s"
  by (simp_all add: handleEditorScroll_def handleRendererScroll_def)

lemma renderer_scroll_discarded_while_syncing:
  "isScrollSyncing s \<Longrightarrow> step s (RendererScroll event) = s"
  by (simp add: handleRendererScroll_def)

text \<open>
  Claim C1. A scroll event of the editor, handled while the guard is not active and the
  renderer is mounted, issues exactly one command: the renderer is to scroll to
  \<open>ratio * max 0 (scrollHeight\<^sub>B - clientHeight\<^sub>B)\<close>, where \<open>ratio\<close> is
  \<open>scrollTop / (scrollHeight - clientHeight)\<close> of the event when its \<open>scrollHeight\<close>
  exceeds its \<open>clientHeight\<close>, and 0 otherwise; when both surfaces have a scrollable
  range, the renderer then is at the scroll fraction of the event. The same holds from
  the renderer to the editor.
\<close>

theorem scroll_ratio_carried_over:
  assumes "\<not> syncing"
    and "rendererRef s = Mounted (Some r)"
    and "editorRef s = Mounted (Some e)"
  shows "commands (handleEditorScroll syncing s event)
           = commands s @ [ToRenderer
               ((if scrollHeight event > clientHeight event
                 then scrollTop event / (scrollHeight event - clientHeight event) else 0)
                * max 0 (scrollHeight r - clientHeight r))]
       \<and> commands (handleRendererScroll syncing s event)
           = commands s @ [ToEditor
               ((if scrollHeight event > clientHeight event
                 then scrollTop event / (scrollHeight event - clientHeight event) else 0)
                * max 0 (scrollHeight e - clientHeight e))]
       \<and> (scrollHeight event > clientHeight event \<and> scrollHeight r > clientHeight r \<longrightarrow>
            scrollFraction (getScrollInfo (rendererRef (handleEditorScroll syncing s event)))
              = scrollFraction event)
       \<and> (scrollHeight event > clientHeight event \<and> scrollHeight e > clientHeight e \<longrightarrow>
            scrollFraction (getScrollInfo (editorRef (handleRendererScroll syncing s event)))
              = scrollFraction event)"
proof -
  have cancel: "x / d * max 0 h / h = x / d" if "h > 0" for x d h :: real
    using that by simp
  show ?thesis
    using assms
    by (simp add: handleEditorScroll_def handleRendererScroll_def Let_def scrollFraction_def
        cancel)
qed

text \<open>
  The editor at position 50 of a range of 200, the renderer with a range of 800: the
  renderer is sent to 200, a quarter of its range as 50 is of 200.
\<close>

theorem scroll_ratio_carried_over_witness:
  "commands (handleEditorScroll False
       (initialApp\<lparr>editorRef := Mounted (Some \<lparr>scrollTop = 50, scrollHeight = 300, clientHeight = 100\<rparr>)\<rparr>)
       \<lparr>scrollTop = 50, scrollHeight = 300, clientHeight = 100\<rparr>)
     = [ToRenderer 200]
   \<and> scrollFraction (getScrollInfo (rendererRef (handleEditorScroll False
       (initialApp\<lparr>editorRef := Mounted (Some \<lparr>scrollTop = 50, scrollHeight = 300, clientHeight = 100\<rparr>)\<rparr>)
       \<lparr>scrollTop = 50, scrollHeight = 300, clientHeight = 100\<rparr>)))
     = 1 / 4"
  using scroll_ratio_carried_over
    [of False
      "initialApp\<lparr>editorRef := Mounted (Some \<lparr>scrollTop = 50, scrollHeight = 300, clientHeight = 100\<rparr>)\<rparr>"
      "\<lparr>scrollTop = 0, scrollHeight = 1000, clientHeight = 200\<rparr>"
      "\<lparr>scrollTop = 50, scrollHeight = 300, clientHeight = 100\<rparr>"
      "\<lparr>scrollTop = 50, scrollHeight = 300, clientHeight = 100\<rparr>"]
  by (simp add: initialApp_def scrollFraction_def)

text \<open>
  Claim C2 on two runs from the first render. In the first the editor mounts and
  scrolls twice with no timer fired in between: the second event arrives while
  \<^verbatim>\<open>isScrollSyncing\<close> is \<^verbatim>\<open>true\<close> and its timer is pending, and it issues a second
  command. In the second the renderer scrolls, the editor is commanded, and the scroll
  event of the editor that follows commands the renderer back.
\<close>

theorem editor_scroll_passes_guard:
  "isScrollSyncing (run initialApp
      [EditorDidMount \<lparr>scrollTop = 0, scrollHeight = 300, clientHeight = 100\<rparr>,
       EditorScroll \<lparr>scrollTop = 50, scrollHeight = 300, clientHeight = 100\<rparr>])
   \<and> timers (run initialApp
      [EditorDidMount \<lparr>scrollTop = 0, scrollHeight = 300, clientHeight = 100\<rparr>,
       EditorScroll \<lparr>scrollTop = 50, scrollHeight = 300, clientHeight = 100\<rparr>]) = [100]
   \<and> commands (run initialApp
      [EditorDidMount \<lparr>scrollTop = 0, scrollHeight = 300, clientHeight = 100\<rparr>,
       EditorScroll \<lparr>scrollTop = 50, scrollHeight = 300, clientHeight = 100\<rparr>,
       EditorScroll \<lparr>scrollTop = 100, scrollHeight = 300, clientHeight = 100\<rparr>])
     = [ToRenderer 200, ToRenderer 400]
   \<and> commands (run initialApp
      [EditorDidMount \<lparr>scrollTop = 0, scrollHeight = 300, clientHeight = 100\<rparr>,
       RendererScroll \<lparr>scrollTop = 400, scrollHeight = 1000, clientHeight = 200\<rparr>,
       EditorScroll \<lparr>scrollTop = 100, scrollHeight = 300, clientHeight = 100\<rparr>])
     = [ToEditor 100, ToRenderer 400]"
  by (simp add: run_def initialApp_def handleEditorScroll_def handleRendererScroll_def Let_def)


end
